theory Spec2Isabelle
  imports Complex_Main "HOL-Library.Word"
begin

section \<open>Typed arrays and the masking pass of the compositing loop\<close>

text \<open>
  \<^verbatim>\<open>CanvasPublisher.vue\<close>, \<^verbatim>\<open>renderCanvas\<close>, lines 141-147:
  \<^verbatim>\<open>
    const pixels = imgData.data
    for (let i = 0; i < pixels.length; i += 4) {
        if (segmentation.data[i / 4] === 0) {
            pixels[i + 3] = 0
        }
    }
  \<close>
  \<open>pixels\<close> is the \<open>Uint8ClampedArray\<close> of an \<open>ImageData\<close> and \<open>segmentation.data\<close>
  the byte array of the person segmentation. Both are JavaScript typed arrays: a read
  at an index that is out of range, or that is not a whole number, yields
  \<open>undefined\<close> (here \<open>None\<close>), and a write out of range is dropped; neither raises.
\<close>

type_synonym byte = "8 word"

definition typedRead :: "'a list \<Rightarrow> nat \<Rightarrow> 'a option" where
  "typedRead xs k = (if k < length xs then Some (xs ! k) else None)"

definition typedWrite :: "'a list \<Rightarrow> nat \<Rightarrow> 'a \<Rightarrow> 'a list" where
  "typedWrite xs k v = (if k < length xs then xs[k := v] else xs)"

text \<open>
  The index expression \<open>i / 4\<close> is a division of JavaScript numbers: it is an array
  index only when \<open>4\<close> divides \<open>i\<close>; any other property key reads \<open>undefined\<close>.
\<close>

definition segmentationAt :: "byte list \<Rightarrow> nat \<Rightarrow> byte option" where
  "segmentationAt seg i = (if 4 dvd i then typedRead seg (i div 4) else None)"

text \<open>
  The state of the scan: the pixel buffer, mutated in place, together with a record of
  what the scan touched: the values of \<open>i\<close> for which the body ran (each reads
  \<open>segmentation.data[i / 4]\<close>) and the byte indices \<open>i + 3\<close> it assigned to.
\<close>

record mask_state =
  pixels :: "byte list"
  visited :: "nat list"
  writes :: "nat list"

definition maskBody :: "byte list \<Rightarrow> nat \<Rightarrow> mask_state \<Rightarrow> mask_state" where
  "maskBody seg i st =
     (if segmentationAt seg i = Some 0
      then st\<lparr>pixels := typedWrite (pixels st) (i + 3) 0,
              visited := visited st @ [i],
              writes := writes st @ [i + 3]\<rparr>
      else st\<lparr>visited := visited st @ [i]\<rparr>)"

function maskLoop :: "byte list \<Rightarrow> nat \<Rightarrow> mask_state \<Rightarrow> mask_state" where
  "maskLoop seg i st =
     (if i < length (pixels st) then maskLoop seg (i + 4) (maskBody seg i st) else st)"
  by pat_completeness auto
termination
  by (relation "measure (\<lambda>(seg, i, st). length (pixels st) - i)")
    (auto simp add: maskBody_def typedWrite_def)

declare maskLoop.simps [simp del]

definition maskPass :: "byte list \<Rightarrow> byte list \<Rightarrow> mask_state" where
  "maskPass seg px = maskLoop seg 0 \<lparr>pixels = px, visited = [], writes = []\<rparr>"

section \<open>The canvas publisher component\<close>

text \<open>
  \<^verbatim>\<open>CanvasPublisher.vue\<close>. The component is a class with fields, three \<open>async\<close>
  methods and \<open>stop\<close>. An \<open>async\<close> method runs until its next \<open>await\<close>, and the rest
  of it runs when the awaited promise settles; in between, other handlers (a click on
  Stop) may run. Each method is therefore embedded as one function per stretch between
  two awaits, and the field \<open>pending\<close> of the state says which stretch comes next.
  What the browser, the camera, the segmentation model and the timer give back arrives
  as the argument of an event.
\<close>

datatype error =
    Error string       \<comment> \<open>\<open>throw new Error(message)\<close>\<close>
  | TypeError string   \<comment> \<open>reading a property of \<open>null\<close>\<close>
  | Rejection string   \<comment> \<open>\<open>reject(value)\<close> with a value that is no \<open>Error\<close>\<close>

text \<open>A throw leaves the state as it is at the throwing statement.\<close>

type_synonym 'a outcome = "(error \<times> 'a) + 'a"

datatype trackState = Live | Ended

record mediaStreamTrack =
  label :: string
  readyState :: trackState

type_synonym mediaStream = "mediaStreamTrack list"

definition trackStop :: "mediaStreamTrack \<Rightarrow> mediaStreamTrack" where
  "trackStop track = track\<lparr>readyState := Ended\<rparr>"

record mediaDeviceInfo =
  deviceId :: string
  kind :: string

record htmlImageElement =
  src :: string

datatype canvasRenderingContext2D = CanvasRenderingContext2D

datatype drawSource =
    ImageElement htmlImageElement   \<comment> \<open>an image\<close>
  | CanvasElement "byte list"       \<comment> \<open>a canvas, with the pixel data it holds when drawn\<close>
  | VideoElement                    \<comment> \<open>the current frame of \<open>localVideo\<close>\<close>

record drawImageCall =
  image_drawn :: drawSource
  dx :: nat
  dy :: nat
  dWidth :: nat
  dHeight :: nat

datatype otPublisher = PublisherActive | PublisherDestroyed

datatype continuation =
    Idle                      \<comment> \<open>nothing is awaited\<close>
  | AwaitEnumerateDevices     \<comment> \<open>\<open>initCanvasPublisher\<close>, line 78\<close>
  | AwaitGetUserMedia         \<comment> \<open>\<open>initCanvasPublisher\<close>, line 85\<close>
  | AwaitPlayAndLoadedData    \<comment> \<open>\<open>initCanvasPublisher\<close>, line 108\<close>
  | AwaitBodyPixLoad          \<comment> \<open>\<open>startCanvasRendering\<close>, line 117\<close>
  | AwaitSegmentPerson        \<comment> \<open>\<open>renderCanvas\<close>, line 133\<close>
  | AwaitTimeout              \<comment> \<open>\<open>workerTimers.setTimeout\<close>, line 156\<close>

text \<open>
  The fields of the class, the two canvases (\<open>cloneCanvas\<close>: the pixel data of the
  off-screen clone; \<open>outputCanvas\<close>: the \<open>drawImage\<close> calls made on the visible canvas, oldest
  first, so a later entry is painted over an earlier one), and what the component did
  to the outside: the delays it passed to \<open>workerTimers.setTimeout\<close>, the calls of
  \<open>session.publish\<close>, and the errors it threw.
\<close>

record canvasPublisher =
  quality :: string
  backgroundImage :: "htmlImageElement option"
  processCanvas :: bool
  publisher :: "otPublisher option"
  srcObject :: "mediaStream option"
  cloneCanvas :: "byte list"
  outputCanvas :: "drawImageCall list"
  workerTimeouts :: "nat list"
  published :: nat
  pending :: continuation
  thrown :: "error list"

definition videoWidth :: "canvasPublisher \<Rightarrow> nat" where
  "videoWidth s = (if quality s = ''high'' then 640 else 320)"

definition videoHeight :: "canvasPublisher \<Rightarrow> nat" where
  "videoHeight s = (if quality s = ''high'' then 480 else 240)"

definition drawImage :: "drawSource \<Rightarrow> nat \<Rightarrow> nat \<Rightarrow> nat \<Rightarrow> nat \<Rightarrow> drawImageCall" where
  "drawImage source x y w h = \<lparr>image_drawn = source, dx = x, dy = y, dWidth = w, dHeight = h\<rparr>"

text \<open>The field initialisers and \<open>created()\<close>.\<close>

definition created :: canvasPublisher where
  "created =
     \<lparr>quality = ''high'',
      backgroundImage = Some \<lparr>src = ''~/assets/icons/mars_background.jpg''\<rparr>,
      processCanvas = False,
      publisher = None,
      srcObject = None,
      cloneCanvas = [],
      outputCanvas = [],
      workerTimeouts = [],
      published = 0,
      pending = Idle,
      thrown = []\<rparr>"

subsection \<open>\<open>renderCanvas\<close>\<close>

text \<open>
  Up to \<open>await net.segmentPerson(...)\<close>: the inference is called on the current frame.
\<close>

definition renderCanvas_begin :: "canvasPublisher \<Rightarrow> canvasPublisher" where
  "renderCanvas_begin s = s\<lparr>pending := AwaitSegmentPerson\<rparr>"

text \<open>
  After the await, lines 139-157. \<open>segmentation\<close> is \<open>segmentation.data\<close> and \<open>frame\<close>
  the data that \<open>getImageData\<close> returns for the video frame just drawn on the clone.
\<close>

definition renderCanvas_resume ::
  "byte list \<Rightarrow> byte list \<Rightarrow> canvasPublisher \<Rightarrow> canvasPublisher outcome" where
  "renderCanvas_resume segmentation frame s =
     (let s1 = s\<lparr>cloneCanvas := frame\<rparr>;
          imgData = cloneCanvas s1;
          masked = pixels (maskPass segmentation imgData);
          s2 = s1\<lparr>cloneCanvas := masked\<rparr>
      in case backgroundImage s2 of
           None \<Rightarrow> Inl (Error ''Unable to get background image'', s2)
         | Some background \<Rightarrow>
             (let s3 = s2\<lparr>outputCanvas := outputCanvas s2 @
                         [drawImage (ImageElement background) 0 0 (videoWidth s2) (videoHeight s2)]\<rparr>;
                  s4 = s3\<lparr>outputCanvas := outputCanvas s3 @
                         [drawImage (CanvasElement (cloneCanvas s3)) 0 0 (videoWidth s3) (videoHeight s3)]\<rparr>
              in Inr (if processCanvas s4
                      then s4\<lparr>workerTimeouts := workerTimeouts s4 @ [30], pending := AwaitTimeout\<rparr>
                      else s4)))"

subsection \<open>\<open>startCanvasRendering\<close>\<close>

text \<open>
  Up to \<open>await bodyPix.load(...)\<close>; \<open>canvasContext\<close> is what
  \<open>outputCanvas.getContext('2d')\<close> returns.
\<close>

definition startCanvasRendering_begin ::
  "canvasRenderingContext2D option \<Rightarrow> canvasPublisher \<Rightarrow> canvasPublisher outcome" where
  "startCanvasRendering_begin canvasContext s =
     (case canvasContext of
        None \<Rightarrow> Inl (Error ''Could not get canvas context to start canvas rendering'', s)
      | Some context \<Rightarrow> Inr (s\<lparr>pending := AwaitBodyPixLoad\<rparr>))"

text \<open>
  After the model is loaded; \<open>canvasClone\<close> is what \<open>getContext('2d')\<close> of the cloned
  canvas returns. The call of \<open>renderCanvas\<close> is not awaited: it runs to its first await.
\<close>

definition startCanvasRendering_resume ::
  "canvasRenderingContext2D option \<Rightarrow> canvasPublisher \<Rightarrow> canvasPublisher outcome" where
  "startCanvasRendering_resume canvasClone s =
     (case canvasClone of
        None \<Rightarrow> Inl (Error ''Unable to clone canvas context'', s)
      | Some cloneContext \<Rightarrow> Inr (renderCanvas_begin (s\<lparr>processCanvas := True\<rparr>)))"

subsection \<open>\<open>initCanvasPublisher\<close> and \<open>mounted\<close>\<close>

text \<open>\<open>mounted()\<close> calls \<open>initCanvasPublisher()\<close>, which calls \<open>enumerateDevices()\<close>.\<close>

definition mounted :: "canvasPublisher \<Rightarrow> canvasPublisher" where
  "mounted s = s\<lparr>pending := AwaitEnumerateDevices\<rparr>"

definition initCanvasPublisher_devices ::
  "mediaDeviceInfo list \<Rightarrow> canvasPublisher \<Rightarrow> canvasPublisher outcome" where
  "initCanvasPublisher_devices devices s =
     (case find (\<lambda>device. kind device = ''videoinput'') devices of
        None \<Rightarrow> Inl (Error ''Could not get video device'', s)
      | Some videoDevice \<Rightarrow> Inr (s\<lparr>pending := AwaitGetUserMedia\<rparr>))"

definition initCanvasPublisher_stream ::
  "mediaStream \<Rightarrow> canvasPublisher \<Rightarrow> canvasPublisher" where
  "initCanvasPublisher_stream stream s =
     s\<lparr>srcObject := Some stream, pending := AwaitPlayAndLoadedData\<rparr>"

text \<open>
  The rest of \<open>mounted()\<close>, after \<open>await this.initCanvasPublisher()\<close>: the publisher is
  made and published.
\<close>

definition mounted_resume :: "canvasPublisher \<Rightarrow> canvasPublisher" where
  "mounted_resume s = s\<lparr>publisher := Some PublisherActive, published := published s + 1\<rparr>"

subsection \<open>\<open>stop\<close>\<close>

definition destroy :: "otPublisher \<Rightarrow> otPublisher" where
  "destroy p = PublisherDestroyed"

definition stop :: "canvasPublisher \<Rightarrow> canvasPublisher outcome" where
  "stop s =
     (let s1 = s\<lparr>publisher := map_option destroy (publisher s)\<rparr>;
          s2 = s1\<lparr>processCanvas := False\<rparr>
      in case srcObject s2 of
           None \<Rightarrow> Inl (TypeError ''Cannot read properties of null (reading getTracks)'', s2)
         | Some stream \<Rightarrow> Inr (s2\<lparr>srcObject := Some (map trackStop stream)\<rparr>))"

subsection \<open>Events\<close>

datatype event =
    DevicesEnumerated "mediaDeviceInfo list"
  | UserMediaGranted mediaStream
  | PlayAndLoadedData "canvasRenderingContext2D option"
  | BodyPixLoaded "canvasRenderingContext2D option"
  | PersonSegmented "byte list" "byte list"
  | TimeoutFired
  | StopCalled

text \<open>
  A thrown error ends the stretch that threw it, and with it the method: nothing in the
  component catches. The error is kept in \<open>thrown\<close>.
\<close>

fun uncaught :: "canvasPublisher outcome \<Rightarrow> canvasPublisher" where
  "uncaught (Inl (e, s)) = s\<lparr>thrown := thrown s @ [e]\<rparr>"
| "uncaught (Inr s) = s"

text \<open>
  An event resumes the stretch that awaits it, and is nothing to a component that awaits
  something else. When the video plays, \<open>initCanvasPublisher\<close> calls
  \<open>startCanvasRendering()\<close> without awaiting it and returns, and \<open>mounted\<close> goes on:
  an error of \<open>startCanvasRendering\<close> does not reach it.
\<close>

fun react :: "event \<Rightarrow> canvasPublisher \<Rightarrow> canvasPublisher" where
  "react (DevicesEnumerated devices) s =
     (if pending s = AwaitEnumerateDevices
      then uncaught (initCanvasPublisher_devices devices (s\<lparr>pending := Idle\<rparr>)) else s)"
| "react (UserMediaGranted stream) s =
     (if pending s = AwaitGetUserMedia
      then initCanvasPublisher_stream stream (s\<lparr>pending := Idle\<rparr>) else s)"
| "react (PlayAndLoadedData canvasContext) s =
     (if pending s = AwaitPlayAndLoadedData
      then mounted_resume (uncaught (startCanvasRendering_begin canvasContext (s\<lparr>pending := Idle\<rparr>)))
      else s)"
| "react (BodyPixLoaded canvasClone) s =
     (if pending s = AwaitBodyPixLoad
      then uncaught (startCanvasRendering_resume canvasClone (s\<lparr>pending := Idle\<rparr>)) else s)"
| "react (PersonSegmented segmentation frame) s =
     (if pending s = AwaitSegmentPerson
      then uncaught (renderCanvas_resume segmentation frame (s\<lparr>pending := Idle\<rparr>)) else s)"
| "react TimeoutFired s =
     (if pending s = AwaitTimeout then renderCanvas_begin (s\<lparr>pending := Idle\<rparr>) else s)"
| "react StopCalled s = uncaught (stop s)"

fun run :: "event list \<Rightarrow> canvasPublisher \<Rightarrow> canvasPublisher" where
  "run [] s = s"
| "run (e # es) s = run es (react e s)"

subsection \<open>A stopped loop\<close>

text \<open>
  The state of a component whose loop has been stopped: the flag is down, the delays
  passed to the timer are \<open>ts\<close>, and either the iteration in flight or the one
  scheduled is still to draw on an output canvas of \<open>n\<close> draws, or nothing is awaited and
  at most one iteration, of two draws, has been added.
\<close>

definition loopHalted :: "nat \<Rightarrow> nat list \<Rightarrow> canvasPublisher \<Rightarrow> bool" where
  "loopHalted n ts s =
     (processCanvas s = False \<and> workerTimeouts s = ts \<and>
      (if pending s = AwaitSegmentPerson \<or> pending s = AwaitTimeout
       then length (outputCanvas s) = n
       else pending s = Idle \<and> length (outputCanvas s) \<le> n + 2))"

section \<open>The recorder page\<close>

text \<open>
  \<^verbatim>\<open>videoRecorder.vue\<close>. The page shows the camera on a canvas and records the canvas.
  Its methods are embedded like those of the component; several calls of
  \<open>initMediaStream\<close> or of \<open>startRecording\<close> may be under way at once, so the state counts
  the calls that await an answer and keeps the local variables of every call of
  \<open>startRecording\<close>.
\<close>

datatype status = Status_initial | Status_started | Status_stopped

record blob =
  bytes :: "byte list"
  mimeType :: string

text \<open>\<open>new Blob(parts, { type })\<close>: the parts one after the other.\<close>

definition newBlob :: "blob list \<Rightarrow> string \<Rightarrow> blob" where
  "newBlob parts ty = \<lparr>bytes = concat (map bytes parts), mimeType = ty\<rparr>"

datatype url = ObjectURL blob   \<comment> \<open>\<open>URL.createObjectURL(blob)\<close>\<close>

datatype promise = Pending | Resolved | Rejected string

datatype recordingState = Inactive | Recording

text \<open>
  The local variables of one call of \<open>startRecording\<close>: the recorder (its \<open>state\<close>), the
  chunks in \<open>data\<close>, the promises \<open>stopped\<close> and \<open>recorded\<close>, the delay given to
  \<open>setTimeout\<close>, and whether the call has gone past its \<open>await\<close>.
\<close>

record recording =
  recorder :: recordingState
  data :: "blob list"
  stopped :: promise
  recorded :: promise
  timeout :: nat
  awaited :: bool

record videoRecorder =
  mediaStreamStatus :: status
  recordingStatus :: status
  vr_quality :: string
  vr_srcObject :: "mediaStream option"
  vr_outputCanvas :: "drawImageCall list"
  vr_workerTimeouts :: "rat list"
  renderTimers :: nat
  playListeners :: nat
  awaitingDevices :: nat
  awaitingUserMedia :: nat
  recordings :: "recording list"
  recordingVideoSrc :: "url option"
  downloadHref :: "url option"
  downloadName :: "string option"
  vr_thrown :: "error list"

definition vr_videoWidth :: "videoRecorder \<Rightarrow> nat" where
  "vr_videoWidth s = (if vr_quality s = ''high'' then 640 else 320)"

definition vr_videoHeight :: "videoRecorder \<Rightarrow> nat" where
  "vr_videoHeight s = (if vr_quality s = ''high'' then 480 else 240)"

definition vr_created :: videoRecorder where
  "vr_created =
     \<lparr>mediaStreamStatus = Status_initial,
      recordingStatus = Status_initial,
      vr_quality = ''high'',
      vr_srcObject = None,
      vr_outputCanvas = [],
      vr_workerTimeouts = [],
      renderTimers = 0,
      playListeners = 0,
      awaitingDevices = 0,
      awaitingUserMedia = 0,
      recordings = [],
      recordingVideoSrc = None,
      downloadHref = None,
      downloadName = None,
      vr_thrown = []\<rparr>"

subsection \<open>The media stream\<close>

definition initMediaStream :: "videoRecorder \<Rightarrow> videoRecorder" where
  "initMediaStream s = s\<lparr>awaitingDevices := awaitingDevices s + 1\<rparr>"

definition initMediaStream_devices ::
  "mediaDeviceInfo list \<Rightarrow> videoRecorder \<Rightarrow> videoRecorder outcome" where
  "initMediaStream_devices devices s =
     (case find (\<lambda>device. kind device = ''videoinput'') devices of
        None \<Rightarrow> Inl (Error ''Could not get video device'', s)
      | Some videoDevice \<Rightarrow> Inr (s\<lparr>awaitingUserMedia := awaitingUserMedia s + 1\<rparr>))"

definition initMediaStream_stream :: "mediaStream \<Rightarrow> videoRecorder \<Rightarrow> videoRecorder" where
  "initMediaStream_stream stream s =
     s\<lparr>vr_srcObject := Some stream,
       playListeners := playListeners s + 1,
       mediaStreamStatus := Status_started\<rparr>"

definition vr_mounted :: "videoRecorder \<Rightarrow> videoRecorder" where
  "vr_mounted s = initMediaStream s"

definition stopMediaStream :: "videoRecorder \<Rightarrow> videoRecorder outcome" where
  "stopMediaStream s =
     (case vr_srcObject s of
        None \<Rightarrow> Inl (Error ''Could not get local stream to stop'', s)
      | Some stream \<Rightarrow>
          Inr (s\<lparr>vr_srcObject := Some (map trackStop stream),
                 mediaStreamStatus := Status_stopped\<rparr>))"

definition toggleMediaStream :: "videoRecorder \<Rightarrow> videoRecorder outcome" where
  "toggleMediaStream s =
     (case mediaStreamStatus s of
        Status_initial \<Rightarrow> Inr (initMediaStream s)
      | Status_stopped \<Rightarrow> Inr (initMediaStream s)
      | Status_started \<Rightarrow> stopMediaStream s)"

subsection \<open>Drawing the video on the canvas\<close>

text \<open>
  \<open>renderCanvas\<close>, lines 111-120; \<open>canvasContext\<close> is what \<open>getContext('2d')\<close> returns. The
  delay \<open>1000 / 30\<close> is a quotient of JavaScript numbers, here the rational number.
\<close>

definition vr_renderCanvas ::
  "canvasRenderingContext2D option \<Rightarrow> videoRecorder \<Rightarrow> videoRecorder outcome" where
  "vr_renderCanvas canvasContext s =
     (case canvasContext of
        None \<Rightarrow> Inl (Error ''Could not get output canvas context'', s)
      | Some context \<Rightarrow>
          Inr (s\<lparr>vr_outputCanvas := vr_outputCanvas s @
                   [drawImage VideoElement 0 0 (vr_videoWidth s) (vr_videoHeight s)],
                 vr_workerTimeouts := vr_workerTimeouts s @ [1000 / 30],
                 renderTimers := renderTimers s + 1\<rparr>))"

subsection \<open>Recording\<close>

text \<open>\<open>startRecording\<close> up to its \<open>await\<close>, lines 135-154.\<close>

definition startRecording :: "videoRecorder \<Rightarrow> videoRecorder" where
  "startRecording s =
     s\<lparr>recordingStatus := Status_started,
       recordings := recordings s @
         [\<lparr>recorder = Recording, data = [], stopped = Pending, recorded = Pending,
           timeout = 30000, awaited = False\<rparr>]\<rparr>"

text \<open>The handlers that \<open>startRecording\<close> installs, each on the variables of its call.\<close>

definition ondataavailable :: "blob \<Rightarrow> recording \<Rightarrow> recording" where
  "ondataavailable chunk r = r\<lparr>data := data r @ [chunk]\<rparr>"

text \<open>A promise is settled once: \<open>resolve\<close> and \<open>reject\<close> do nothing to a settled one.\<close>

definition onstop :: "recording \<Rightarrow> recording" where
  "onstop r = r\<lparr>recorder := Inactive,
                 stopped := (if stopped r = Pending then Resolved else stopped r)\<rparr>"

definition onerror :: "string \<Rightarrow> recording \<Rightarrow> recording" where
  "onerror name r = r\<lparr>stopped := (if stopped r = Pending then Rejected name else stopped r)\<rparr>"

text \<open>
  The callback of \<open>setTimeout\<close>: \<open>recorder.stop()\<close>, then \<open>resolve()\<close>. Stopping a
  recorder that is inactive already does nothing.
\<close>

definition ontimeout :: "recording \<Rightarrow> recording" where
  "ontimeout r = r\<lparr>recorder := Inactive, recorded := Resolved\<rparr>"

text \<open>\<open>startRecording\<close> after its \<open>await\<close>, lines 161-169, for the call with variables \<open>r\<close>.\<close>

definition startRecording_resume :: "recording \<Rightarrow> videoRecorder \<Rightarrow> videoRecorder" where
  "startRecording_resume r s =
     (let s1 = s\<lparr>recordingStatus := Status_stopped\<rparr>;
          recordedBlob = newBlob (data r) ''video/webm'';
          s2 = s1\<lparr>recordingVideoSrc := Some (ObjectURL recordedBlob)\<rparr>;
          s3 = s2\<lparr>downloadHref := recordingVideoSrc s2\<rparr>
      in s3\<lparr>downloadName := Some ''RecordedVideo.webm''\<rparr>)"

text \<open>
  \<open>await Promise.all([stopped, recorded])\<close> for the call number \<open>k\<close>: it throws as soon as
  \<open>stopped\<close> is rejected, goes on when both promises are resolved, and waits otherwise.
\<close>

definition awaitAll :: "nat \<Rightarrow> videoRecorder \<Rightarrow> videoRecorder outcome" where
  "awaitAll k s =
     (let r = recordings s ! k;
          past = s\<lparr>recordings := (recordings s)[k := r\<lparr>awaited := True\<rparr>]\<rparr>
      in if awaited r then Inr s
         else case stopped r of
                Rejected name \<Rightarrow> Inl (Rejection name, past)
              | Pending \<Rightarrow> Inr s
              | Resolved \<Rightarrow>
                  (if recorded r = Resolved then Inr (startRecording_resume r past) else Inr s))"

subsection \<open>Events of the recorder page\<close>

datatype vr_event =
    DevicesListed "mediaDeviceInfo list"
  | StreamGranted mediaStream
  | VideoPlay "canvasRenderingContext2D option"
  | RenderTimeout "canvasRenderingContext2D option"
  | ToggleClicked
  | RecordClicked
  | DataAvailable nat blob
  | RecorderStop nat
  | RecorderError nat string
  | RecordTimeout nat

fun vr_uncaught :: "videoRecorder outcome \<Rightarrow> videoRecorder" where
  "vr_uncaught (Inl (e, s)) = s\<lparr>vr_thrown := vr_thrown s @ [e]\<rparr>"
| "vr_uncaught (Inr s) = s"

text \<open>An event of the recorder of call \<open>k\<close> runs its handler, then what awaits the promises.\<close>

definition onRecording :: "nat \<Rightarrow> (recording \<Rightarrow> recording) \<Rightarrow> videoRecorder \<Rightarrow> videoRecorder" where
  "onRecording k handler s =
     (if k < length (recordings s)
      then vr_uncaught (awaitAll k (s\<lparr>recordings := (recordings s)[k := handler (recordings s ! k)]\<rparr>))
      else s)"

fun vr_react :: "vr_event \<Rightarrow> videoRecorder \<Rightarrow> videoRecorder" where
  "vr_react (DevicesListed devices) s =
     (if 0 < awaitingDevices s
      then vr_uncaught (initMediaStream_devices devices (s\<lparr>awaitingDevices := awaitingDevices s - 1\<rparr>))
      else s)"
| "vr_react (StreamGranted stream) s =
     (if 0 < awaitingUserMedia s
      then initMediaStream_stream stream (s\<lparr>awaitingUserMedia := awaitingUserMedia s - 1\<rparr>)
      else s)"
| "vr_react (VideoPlay canvasContext) s =
     ((\<lambda>s'. vr_uncaught (vr_renderCanvas canvasContext s')) ^^ playListeners s) s"
| "vr_react (RenderTimeout canvasContext) s =
     (if 0 < renderTimers s
      then vr_uncaught (vr_renderCanvas canvasContext (s\<lparr>renderTimers := renderTimers s - 1\<rparr>))
      else s)"
| "vr_react ToggleClicked s = vr_uncaught (toggleMediaStream s)"
| "vr_react RecordClicked s = startRecording s"
| "vr_react (DataAvailable k chunk) s = onRecording k (ondataavailable chunk) s"
| "vr_react (RecorderStop k) s = onRecording k onstop s"
| "vr_react (RecorderError k name) s = onRecording k (onerror name) s"
| "vr_react (RecordTimeout k) s =
     (if k < length (recordings s) \<and> recorded (recordings s ! k) = Pending
      then onRecording k ontimeout s else s)"

fun vr_run :: "vr_event list \<Rightarrow> videoRecorder \<Rightarrow> videoRecorder" where
  "vr_run [] s = s"
| "vr_run (e # es) s = vr_run es (vr_react e s)"

section \<open>The index page\<close>

text \<open>
  \<^verbatim>\<open>index.vue\<close>. The page holds the session; the template shows the canvas publisher
  component only when the session is set (\<open>v-if="session"\<close>). \<open>start()\<close> reads three
  variables of the environment, each a string or \<open>undefined\<close>, and connects; the answer
  comes to the callback given to \<open>session.connect\<close>. The state keeps the calls of
  \<open>connect\<close> and of \<open>alert\<close> that the page made.
\<close>

record otSession =
  apiKey :: string
  sessionId :: string

record indexPage =
  session :: "otSession option"
  connectCalls :: "(otSession \<times> string) list"
  alerts :: "string list"
  ix_thrown :: "error list"

definition ix_created :: indexPage where
  "ix_created = \<lparr>session = None, connectCalls = [], alerts = [], ix_thrown = []\<rparr>"

text \<open>\<open>!v\<close> for a string or \<open>undefined\<close>: true for \<open>undefined\<close> and for the empty string.\<close>

definition falsy :: "string option \<Rightarrow> bool" where
  "falsy v = (case v of None \<Rightarrow> True | Some str \<Rightarrow> str = [])"

definition initSession :: "string \<Rightarrow> string \<Rightarrow> otSession" where
  "initSession key sid = \<lparr>apiKey = key, sessionId = sid\<rparr>"

definition start ::
  "string option \<Rightarrow> string option \<Rightarrow> string option \<Rightarrow> indexPage \<Rightarrow> indexPage outcome" where
  "start envApiKey envSessionId envToken s =
     (if falsy envApiKey \<or> falsy envSessionId \<or> falsy envToken
      then Inl (Error ''Could not get env tokens'', s)
      else case (envApiKey, envSessionId, envToken) of
             (Some key, Some sid, Some token) \<Rightarrow>
               Inr (s\<lparr>connectCalls := connectCalls s @ [(initSession key sid, token)]\<rparr>)
           | _ \<Rightarrow> Inl (Error ''Could not get env tokens'', s))"

text \<open>
  The callback of \<open>session.connect\<close>, lines 37-43, for the session \<open>sess\<close> of its call of
  \<open>start\<close>; \<open>err\<close> is the error as \<open>+\<close> renders it, or nothing.
\<close>

definition connectCallback :: "otSession \<Rightarrow> string option \<Rightarrow> indexPage \<Rightarrow> indexPage" where
  "connectCallback sess err s =
     (case err of
        Some e \<Rightarrow> s\<lparr>alerts := alerts s @ [''Could not connect session: '' @ e]\<rparr>
      | None \<Rightarrow> s\<lparr>session := Some sess\<rparr>)"

definition canvasPublisherShown :: "indexPage \<Rightarrow> bool" where
  "canvasPublisherShown s = (session s \<noteq> None)"

datatype ix_event =
    StartClicked "string option" "string option" "string option"
  | ConnectAnswered otSession "string option"

fun ix_uncaught :: "indexPage outcome \<Rightarrow> indexPage" where
  "ix_uncaught (Inl (e, s)) = s\<lparr>ix_thrown := ix_thrown s @ [e]\<rparr>"
| "ix_uncaught (Inr s) = s"

fun ix_react :: "ix_event \<Rightarrow> indexPage \<Rightarrow> indexPage" where
  "ix_react (StartClicked envApiKey envSessionId envToken) s =
     ix_uncaught (start envApiKey envSessionId envToken s)"
| "ix_react (ConnectAnswered sess err) s = connectCallback sess err s"

fun ix_run :: "ix_event list \<Rightarrow> indexPage \<Rightarrow> indexPage" where
  "ix_run [] s = s"
| "ix_run (e # es) s = ix_run es (ix_react e s)"

fun connectSucceeded :: "ix_event \<Rightarrow> bool" where
  "connectSucceeded (ConnectAnswered sess None) = True"
| "connectSucceeded e = False"

section \<open>Properties of the masking pass\<close>

subsection \<open>What the scan computes\<close>

lemma length_pixels_maskBody [simp]:
  "length (pixels (maskBody seg i st)) = length (pixels st)"
  by (simp add: maskBody_def typedWrite_def)

lemma length_pixels_maskLoop:
  "length (pixels (maskLoop seg i st)) = length (pixels st)"
proof (induction seg i st rule: maskLoop.induct)
  case (1 seg i st)
  show ?case
  proof (cases "i < length (pixels st)")
    case True
    with "1" show ?thesis by (simp add: maskLoop.simps [of seg i st])
  next
    case False
    then show ?thesis by (simp add: maskLoop.simps [of seg i st])
  qed
qed

lemma pixels_maskBody_nth:
  assumes "j < length (pixels st)"
  shows "pixels (maskBody seg i st) ! j =
           (if segmentationAt seg i = Some 0 \<and> j = i + 3 then 0 else pixels st ! j)"
  using assms by (simp add: maskBody_def typedWrite_def nth_list_update)

lemma alpha_index_step:
  assumes "4 dvd (i::nat)"
  shows "(i \<le> j \<and> j mod 4 = 3) = (j = i + 3 \<or> (i + 4 \<le> j \<and> j mod 4 = 3))"
  using assms by presburger

lemma alpha_index_div:
  assumes "4 dvd (i::nat)"
  shows "(i + 3) div 4 = i div 4"
  using assms by presburger

text \<open>
  Byte \<open>j\<close> of the buffer after the scan from a multiple \<open>i\<close> of four: zero when it is
  the alpha byte of a pixel at or after \<open>i\<close> whose classification reads \<open>0\<close>, and
  what it was otherwise.
\<close>

lemma pixels_maskLoop_nth:
  assumes "4 dvd i" and "j < length (pixels st)"
  shows "pixels (maskLoop seg i st) ! j =
           (if i \<le> j \<and> j mod 4 = 3 \<and> typedRead seg (j div 4) = Some 0
            then 0 else pixels st ! j)"
  using assms
proof (induction seg i st rule: maskLoop.induct)
  case (1 seg i st)
  show ?case
  proof (cases "i < length (pixels st)")
    case False
    with "1.prems" show ?thesis by (simp add: maskLoop.simps [of seg i st])
  next
    case True
    have d4: "4 dvd i + 4" using "1.prems"(1) by simp
    have unfold: "maskLoop seg i st = maskLoop seg (i + 4) (maskBody seg i st)"
      using True by (simp add: maskLoop.simps [of seg i st])
    have ih: "pixels (maskLoop seg (i + 4) (maskBody seg i st)) ! j =
        (if i + 4 \<le> j \<and> j mod 4 = 3 \<and> typedRead seg (j div 4) = Some 0
         then 0 else pixels (maskBody seg i st) ! j)"
      using "1.IH" [OF True d4] "1.prems"(2) by simp
    have body: "pixels (maskBody seg i st) ! j =
        (if segmentationAt seg i = Some 0 \<and> j = i + 3 then 0 else pixels st ! j)"
      using "1.prems"(2) by (rule pixels_maskBody_nth)
    have at: "segmentationAt seg i = typedRead seg (i div 4)"
      using "1.prems"(1) by (simp add: segmentationAt_def)
    show ?thesis
    proof (cases "j = i + 3")
      case True
      then have "j div 4 = i div 4" "j mod 4 = 3" "\<not> i + 4 \<le> j" "i \<le> j"
        using "1.prems"(1) alpha_index_div [of i] by (simp_all add: mod_eq_0_iff_dvd) presburger
      then show ?thesis using unfold ih body at True by simp
    next
      case False
      then have "(i \<le> j \<and> j mod 4 = 3) = (i + 4 \<le> j \<and> j mod 4 = 3)"
        using alpha_index_step [OF "1.prems"(1), of j] by simp
      then show ?thesis using unfold ih body False by auto
    qed
  qed
qed

subsection \<open>What the scan touches\<close>

lemma multiple_of_four_step:
  assumes "4 dvd (i::nat)" and "4 dvd n" and "i < n"
  shows "i + 3 < n" and "i div 4 < n div 4" and "Suc (i div 4) = (i + 4) div 4"
  using assms by presburger+

lemma visited_maskLoop:
  assumes "4 dvd i" and "4 dvd length (pixels st)"
  shows "visited (maskLoop seg i st) =
           visited st @ map (\<lambda>p. 4 * p) [i div 4..<length (pixels st) div 4]"
  using assms
proof (induction seg i st rule: maskLoop.induct)
  case (1 seg i st)
  let ?n = "length (pixels st)"
  show ?case
  proof (cases "i < ?n")
    case False
    then have "[i div 4..<?n div 4] = []"
      using "1.prems" by (simp add: div_le_mono)
    with False show ?thesis by (simp add: maskLoop.simps [of seg i st])
  next
    case True
    have d4: "4 dvd i + 4" using "1.prems"(1) by simp
    have ih: "visited (maskLoop seg (i + 4) (maskBody seg i st)) =
        visited (maskBody seg i st) @ map (\<lambda>p. 4 * p) [(i + 4) div 4..<?n div 4]"
      using "1.IH" [OF True d4] "1.prems"(2) by simp
    have vb: "visited (maskBody seg i st) = visited st @ [i]"
      by (simp add: maskBody_def)
    have lt: "i div 4 < ?n div 4" and suc: "Suc (i div 4) = (i + 4) div 4"
      using multiple_of_four_step [OF "1.prems"(1) "1.prems"(2) True] by simp_all
    have "[i div 4..<?n div 4] = i div 4 # [(i + 4) div 4..<?n div 4]"
      using lt suc by (simp add: upt_conv_Cons)
    moreover have "4 * (i div 4) = i" using "1.prems"(1) by simp
    ultimately show ?thesis
      using True ih vb by (simp add: maskLoop.simps [of seg i st])
  qed
qed

lemma writes_maskLoop:
  assumes "4 dvd i" and "4 dvd length (pixels st)"
    and "list_all (\<lambda>j. j < length (pixels st)) (writes st)"
  shows "list_all (\<lambda>j. j < length (pixels st)) (writes (maskLoop seg i st))"
  using assms
proof (induction seg i st rule: maskLoop.induct)
  case (1 seg i st)
  let ?n = "length (pixels st)"
  show ?case
  proof (cases "i < ?n")
    case False
    with "1.prems"(3) show ?thesis by (simp add: maskLoop.simps [of seg i st])
  next
    case True
    have d4: "4 dvd i + 4" using "1.prems"(1) by simp
    have inb: "i + 3 < ?n"
      using multiple_of_four_step(1) [OF "1.prems"(1) "1.prems"(2) True] .
    have wb: "list_all (\<lambda>j. j < length (pixels (maskBody seg i st))) (writes (maskBody seg i st))"
      using "1.prems"(3) inb by (simp add: maskBody_def typedWrite_def)
    have "list_all (\<lambda>j. j < length (pixels (maskBody seg i st)))
            (writes (maskLoop seg (i + 4) (maskBody seg i st)))"
      using "1.IH" [OF True d4 _ wb] "1.prems"(2) by simp
    then show ?thesis using True by (simp add: maskLoop.simps [of seg i st])
  qed
qed

subsection \<open>Alpha bytes only, and within bounds\<close>

text \<open>
  C3. The masking pass changes alpha bytes only: the buffer keeps its length, every
  byte that is not an alpha byte (R, G and B, index not \<open>3\<close> modulo \<open>4\<close>) keeps its
  value, and so does the alpha byte of every pixel whose classification entry is
  nonzero (foreground).
\<close>

theorem mask_changes_background_alpha_only:
  "length (pixels (maskPass seg px)) = length px
   \<and> (\<forall>j < length px. j mod 4 \<noteq> 3 \<longrightarrow> pixels (maskPass seg px) ! j = px ! j)
   \<and> (\<forall>p < length seg. 4 * p + 3 < length px \<longrightarrow> seg ! p \<noteq> 0
          \<longrightarrow> pixels (maskPass seg px) ! (4 * p + 3) = px ! (4 * p + 3))"
proof (intro conjI allI impI)
  show "length (pixels (maskPass seg px)) = length px"
    by (simp add: maskPass_def length_pixels_maskLoop)
next
  fix j assume "j < length px" and "j mod 4 \<noteq> 3"
  then show "pixels (maskPass seg px) ! j = px ! j"
    using pixels_maskLoop_nth [of 0 j "\<lparr>pixels = px, visited = [], writes = []\<rparr>" seg]
    by (simp add: maskPass_def)
next
  fix p assume p: "p < length seg" and inb: "4 * p + 3 < length px" and fg: "seg ! p \<noteq> 0"
  have "(4 * p + 3) div 4 = p" by presburger
  moreover have "typedRead seg p \<noteq> Some 0"
    using p fg by (simp add: typedRead_def)
  ultimately show "pixels (maskPass seg px) ! (4 * p + 3) = px ! (4 * p + 3)"
    using pixels_maskLoop_nth [of 0 "4 * p + 3" "\<lparr>pixels = px, visited = [], writes = []\<rparr>" seg]
      inb
    by (simp add: maskPass_def)
qed

theorem mask_changes_background_alpha_only_witness:
  "length (pixels (maskPass [1, 0] [10, 20, 30, 255, 40, 50, 60, 255])) = 8
   \<and> pixels (maskPass [1, 0] [10, 20, 30, 255, 40, 50, 60, 255]) ! 5 = 50
   \<and> pixels (maskPass [1, 0] [10, 20, 30, 255, 40, 50, 60, 255]) ! 3 = 255"
proof -
  let ?seg = "[1, 0] :: byte list"
  let ?px = "[10, 20, 30, 255, 40, 50, 60, 255] :: byte list"
  note t = mask_changes_background_alpha_only [of ?seg ?px]
  from t have len: "length (pixels (maskPass ?seg ?px)) = 8" by simp
  from t have "\<forall>j < length ?px. j mod 4 \<noteq> 3 \<longrightarrow> pixels (maskPass ?seg ?px) ! j = ?px ! j"
    by blast
  then have "(5::nat) < length ?px \<longrightarrow> (5::nat) mod 4 \<noteq> 3
      \<longrightarrow> pixels (maskPass ?seg ?px) ! 5 = ?px ! 5"
    by blast
  then have rgb: "pixels (maskPass ?seg ?px) ! 5 = 50" by simp
  from t have "\<forall>p < length ?seg. 4 * p + 3 < length ?px \<longrightarrow> ?seg ! p \<noteq> 0
      \<longrightarrow> pixels (maskPass ?seg ?px) ! (4 * p + 3) = ?px ! (4 * p + 3)"
    by blast
  then have "(0::nat) < length ?seg \<longrightarrow> 4 * 0 + 3 < length ?px \<longrightarrow> ?seg ! 0 \<noteq> 0
      \<longrightarrow> pixels (maskPass ?seg ?px) ! (4 * 0 + 3) = ?px ! (4 * 0 + 3)"
    by blast
  then have fg: "pixels (maskPass ?seg ?px) ! 3 = 255" by simp
  from len rgb fg show ?thesis by simp
qed

text \<open>
  C6. The pixel buffer is the data of an \<open>ImageData\<close>, four bytes per pixel, so its
  length is a multiple of four. When moreover the classification array has at least one
  entry per pixel (\<open>length px / 4 \<le> length seg\<close>), the scan is exhaustive and stays in
  bounds: the index takes the values \<open>0, 4, 8, ...\<close>, one for every pixel of the
  buffer and each once, so \<open>i / 4\<close> is the whole pixel number; every read
  \<open>segmentation.data[i / 4]\<close> finds an entry of the array; and every write goes
  to a byte \<open>i + 3\<close> inside the buffer.
\<close>

theorem mask_scan_exhaustive_in_bounds:
  assumes "4 dvd length px" and "length px \<le> 4 * length seg"
  shows "visited (maskPass seg px) = map (\<lambda>p. 4 * p) [0..<length px div 4]
     \<and> map (\<lambda>i. i div 4) (visited (maskPass seg px)) = [0..<length px div 4]
     \<and> list_all (\<lambda>i. 4 dvd i \<and> i < length px \<and> i div 4 < length seg
                    \<and> segmentationAt seg i = Some (seg ! (i div 4)))
          (visited (maskPass seg px))
     \<and> list_all (\<lambda>j. j < length px) (writes (maskPass seg px))"
proof -
  let ?st = "\<lparr>pixels = px, visited = [], writes = []\<rparr>"
  have v: "visited (maskPass seg px) = map (\<lambda>p. 4 * p) [0..<length px div 4]"
    using visited_maskLoop [of 0 ?st seg] assms(1) by (simp add: maskPass_def)
  have "map (\<lambda>i. i div 4) (map (\<lambda>p. 4 * p) [0..<length px div 4]) = [0..<length px div 4]"
    by (simp add: map_idI)
  with v have once: "map (\<lambda>i. i div 4) (visited (maskPass seg px)) = [0..<length px div 4]"
    by simp
  have reads: "list_all (\<lambda>i. 4 dvd i \<and> i < length px \<and> i div 4 < length seg
                    \<and> segmentationAt seg i = Some (seg ! (i div 4)))
                 (visited (maskPass seg px))"
    unfolding v list_all_iff
  proof
    fix i assume "i \<in> set (map (\<lambda>p. 4 * p) [0..<length px div 4])"
    then obtain p where i: "i = 4 * p" and p: "p < length px div 4" by auto
    from p assms(1) have "4 * p < length px" by presburger
    moreover from p assms(2) have "p < length seg" by presburger
    ultimately show "4 dvd i \<and> i < length px \<and> i div 4 < length seg
        \<and> segmentationAt seg i = Some (seg ! (i div 4))"
      using i by (simp add: segmentationAt_def typedRead_def)
  qed
  have w: "list_all (\<lambda>j. j < length px) (writes (maskPass seg px))"
    using writes_maskLoop [of 0 ?st seg] assms(1) by (simp add: maskPass_def)
  from v once reads w show ?thesis by simp
qed

theorem mask_scan_exhaustive_in_bounds_witness:
  "visited (maskPass [1, 0] [10, 20, 30, 255, 40, 50, 60, 255]) = [0, 4]
   \<and> map (\<lambda>i. i div 4) (visited (maskPass [1, 0] [10, 20, 30, 255, 40, 50, 60, 255])) = [0, 1]
   \<and> list_all (\<lambda>j. j < 8) (writes (maskPass [1, 0] [10, 20, 30, 255, 40, 50, 60, 255]))"
proof -
  let ?seg = "[1, 0] :: byte list"
  let ?px = "[10, 20, 30, 255, 40, 50, 60, 255] :: byte list"
  have len: "length ?px = 8" by simp
  have h1: "4 dvd length ?px" unfolding len by simp
  have h2: "length ?px \<le> 4 * length ?seg" by simp
  have u: "[0..<8 div 4] = [0, 1::nat]" by code_simp
  note t = mask_scan_exhaustive_in_bounds [OF h1 h2, unfolded len u]
  from t show ?thesis by simp
qed

section \<open>Properties of the canvas publisher component\<close>

subsection \<open>A component that awaits nothing\<close>

lemma react_idle:
  assumes "pending s = Idle" and "e \<noteq> StopCalled"
  shows "react e s = s"
  using assms by (cases e) simp_all

lemma run_idle:
  assumes "pending s = Idle" and "StopCalled \<notin> set es"
  shows "run es s = s"
  using assms
proof (induction es)
  case Nil
  show ?case by simp
next
  case (Cons e es)
  from Cons.prems have "e \<noteq> StopCalled" by auto
  with Cons.prems(1) have "react e s = s" by (rule react_idle)
  with Cons show ?case by simp
qed

subsection \<open>Failing initialisation\<close>

text \<open>
  C4, as the claim states it: a failing check aborts the initialisation. It does not
  when the output canvas has no 2D context. \<open>initCanvasPublisher\<close> calls
  \<open>startCanvasRendering()\<close> without awaiting it (line 109), so the error thrown at line 115
  rejects that call only: \<open>initCanvasPublisher\<close> returns normally and \<open>mounted\<close> goes on to
  make the publisher and to publish it (lines 62-68). With a camera and a playing video
  but no 2D context, the error is thrown and the publisher is there, published once.
\<close>

theorem missing_context_publisher_still_published:
  "thrown (run [DevicesEnumerated [\<lparr>deviceId = ''cam'', kind = ''videoinput''\<rparr>],
                UserMediaGranted [\<lparr>label = ''camera'', readyState = Live\<rparr>],
                PlayAndLoadedData None]
             (mounted created)) =
     [Error ''Could not get canvas context to start canvas rendering'']
   \<and> publisher (run [DevicesEnumerated [\<lparr>deviceId = ''cam'', kind = ''videoinput''\<rparr>],
                UserMediaGranted [\<lparr>label = ''camera'', readyState = Live\<rparr>],
                PlayAndLoadedData None]
             (mounted created)) = Some PublisherActive
   \<and> published (run [DevicesEnumerated [\<lparr>deviceId = ''cam'', kind = ''videoinput''\<rparr>],
                UserMediaGranted [\<lparr>label = ''camera'', readyState = Live\<rparr>],
                PlayAndLoadedData None]
             (mounted created)) = 1
   \<and> pending (run [DevicesEnumerated [\<lparr>deviceId = ''cam'', kind = ''videoinput''\<rparr>],
                UserMediaGranted [\<lparr>label = ''camera'', readyState = Live\<rparr>],
                PlayAndLoadedData None]
             (mounted created)) = Idle"
  by (simp add: mounted_def created_def initCanvasPublisher_devices_def
      initCanvasPublisher_stream_def startCanvasRendering_begin_def mounted_resume_def)

text \<open>
  C4, amended. Each of the four checks throws, and the throw ends the chain of the
  function that made it; nothing retries or recovers:
  \<^item> no device of kind \<open>videoinput\<close>: \<open>initCanvasPublisher\<close> throws
    \<open>Could not get video device\<close>; no stream is requested, and \<open>mounted\<close>, which awaits it,
    ends with it: no publisher is made and nothing is published;
  \<^item> no 2D context of the output canvas: \<open>startCanvasRendering\<close> throws before the model
    is loaded, so the loop never starts; the call is not awaited, and \<open>mounted\<close> still
    makes the publisher and publishes it;
  \<^item> no 2D context of the cloned canvas: \<open>startCanvasRendering\<close> throws before
    \<open>processCanvas\<close> is set and before \<open>renderCanvas\<close> is called; the publisher is left as
    it is;
  \<^item> no background image: \<open>renderCanvas\<close> throws before it draws on the output canvas and
    before it reschedules itself; the publisher is left as it is.
  In each case the error is thrown uncaught, the component then awaits nothing, and no
  later answer of the browser, of the model or of a timer changes its state.
\<close>

theorem failed_check_ends_its_own_chain:
  "(find (\<lambda>device. kind device = ''videoinput'') devices = None \<longrightarrow>
      initCanvasPublisher_devices devices s = Inl (Error ''Could not get video device'', s)
      \<and> (pending s = AwaitEnumerateDevices \<longrightarrow>
           react (DevicesEnumerated devices) s =
             s\<lparr>pending := Idle, thrown := thrown s @ [Error ''Could not get video device'']\<rparr>
           \<and> publisher (react (DevicesEnumerated devices) s) = publisher s
           \<and> published (react (DevicesEnumerated devices) s) = published s
           \<and> srcObject (react (DevicesEnumerated devices) s) = srcObject s
           \<and> (\<forall>es. StopCalled \<notin> set es \<longrightarrow>
                 run es (react (DevicesEnumerated devices) s) = react (DevicesEnumerated devices) s)))
   \<and> startCanvasRendering_begin None s =
         Inl (Error ''Could not get canvas context to start canvas rendering'', s)
   \<and> (pending s = AwaitPlayAndLoadedData \<longrightarrow>
         react (PlayAndLoadedData None) s =
           mounted_resume (s\<lparr>pending := Idle,
             thrown := thrown s @ [Error ''Could not get canvas context to start canvas rendering'']\<rparr>)
         \<and> publisher (react (PlayAndLoadedData None) s) = Some PublisherActive
         \<and> published (react (PlayAndLoadedData None) s) = published s + 1
         \<and> processCanvas (react (PlayAndLoadedData None) s) = processCanvas s
         \<and> (\<forall>es. StopCalled \<notin> set es \<longrightarrow>
               run es (react (PlayAndLoadedData None) s) = react (PlayAndLoadedData None) s))
   \<and> startCanvasRendering_resume None s = Inl (Error ''Unable to clone canvas context'', s)
   \<and> (pending s = AwaitBodyPixLoad \<longrightarrow>
         react (BodyPixLoaded None) s =
           s\<lparr>pending := Idle, thrown := thrown s @ [Error ''Unable to clone canvas context'']\<rparr>
         \<and> publisher (react (BodyPixLoaded None) s) = publisher s
         \<and> published (react (BodyPixLoaded None) s) = published s
         \<and> processCanvas (react (BodyPixLoaded None) s) = processCanvas s
         \<and> (\<forall>es. StopCalled \<notin> set es \<longrightarrow>
               run es (react (BodyPixLoaded None) s) = react (BodyPixLoaded None) s))
   \<and> (backgroundImage s = None \<longrightarrow>
         renderCanvas_resume segmentation frame s =
           Inl (Error ''Unable to get background image'',
                s\<lparr>cloneCanvas := pixels (maskPass segmentation frame)\<rparr>)
         \<and> (pending s = AwaitSegmentPerson \<longrightarrow>
              react (PersonSegmented segmentation frame) s =
                s\<lparr>cloneCanvas := pixels (maskPass segmentation frame), pending := Idle,
                  thrown := thrown s @ [Error ''Unable to get background image'']\<rparr>
              \<and> publisher (react (PersonSegmented segmentation frame) s) = publisher s
              \<and> published (react (PersonSegmented segmentation frame) s) = published s
              \<and> outputCanvas (react (PersonSegmented segmentation frame) s) = outputCanvas s
              \<and> workerTimeouts (react (PersonSegmented segmentation frame) s) = workerTimeouts s
              \<and> (\<forall>es. StopCalled \<notin> set es \<longrightarrow>
                    run es (react (PersonSegmented segmentation frame) s) =
                      react (PersonSegmented segmentation frame) s)))"
proof (intro conjI impI allI)
  assume "find (\<lambda>device. kind device = ''videoinput'') devices = None"
  then show "initCanvasPublisher_devices devices s = Inl (Error ''Could not get video device'', s)"
    by (simp add: initCanvasPublisher_devices_def)
next
  assume nodev: "find (\<lambda>device. kind device = ''videoinput'') devices = None"
    and p: "pending s = AwaitEnumerateDevices"
  then show r: "react (DevicesEnumerated devices) s =
      s\<lparr>pending := Idle, thrown := thrown s @ [Error ''Could not get video device'']\<rparr>"
    by (simp add: initCanvasPublisher_devices_def)
  show "publisher (react (DevicesEnumerated devices) s) = publisher s"
    and "published (react (DevicesEnumerated devices) s) = published s"
    and "srcObject (react (DevicesEnumerated devices) s) = srcObject s"
    unfolding r by simp_all
  fix es assume "StopCalled \<notin> set es"
  then show "run es (react (DevicesEnumerated devices) s) = react (DevicesEnumerated devices) s"
    unfolding r by (simp add: run_idle)
next
  show "startCanvasRendering_begin None s =
      Inl (Error ''Could not get canvas context to start canvas rendering'', s)"
    by (simp add: startCanvasRendering_begin_def)
next
  assume p: "pending s = AwaitPlayAndLoadedData"
  then show r: "react (PlayAndLoadedData None) s =
      mounted_resume (s\<lparr>pending := Idle,
        thrown := thrown s @ [Error ''Could not get canvas context to start canvas rendering'']\<rparr>)"
    by (simp add: startCanvasRendering_begin_def)
  show "publisher (react (PlayAndLoadedData None) s) = Some PublisherActive"
    and "published (react (PlayAndLoadedData None) s) = published s + 1"
    and "processCanvas (react (PlayAndLoadedData None) s) = processCanvas s"
    unfolding r by (simp_all add: mounted_resume_def)
  fix es assume "StopCalled \<notin> set es"
  then show "run es (react (PlayAndLoadedData None) s) = react (PlayAndLoadedData None) s"
    unfolding r by (simp add: run_idle mounted_resume_def)
next
  show "startCanvasRendering_resume None s = Inl (Error ''Unable to clone canvas context'', s)"
    by (simp add: startCanvasRendering_resume_def)
next
  assume p: "pending s = AwaitBodyPixLoad"
  then show r: "react (BodyPixLoaded None) s =
      s\<lparr>pending := Idle, thrown := thrown s @ [Error ''Unable to clone canvas context'']\<rparr>"
    by (simp add: startCanvasRendering_resume_def)
  show "publisher (react (BodyPixLoaded None) s) = publisher s"
    and "published (react (BodyPixLoaded None) s) = published s"
    and "processCanvas (react (BodyPixLoaded None) s) = processCanvas s"
    unfolding r by simp_all
  fix es assume "StopCalled \<notin> set es"
  then show "run es (react (BodyPixLoaded None) s) = react (BodyPixLoaded None) s"
    unfolding r by (simp add: run_idle)
next
  assume "backgroundImage s = None"
  then show "renderCanvas_resume segmentation frame s =
      Inl (Error ''Unable to get background image'',
           s\<lparr>cloneCanvas := pixels (maskPass segmentation frame)\<rparr>)"
    by (simp add: renderCanvas_resume_def)
next
  assume bg: "backgroundImage s = None" and p: "pending s = AwaitSegmentPerson"
  then show r: "react (PersonSegmented segmentation frame) s =
      s\<lparr>cloneCanvas := pixels (maskPass segmentation frame), pending := Idle,
        thrown := thrown s @ [Error ''Unable to get background image'']\<rparr>"
    by (simp add: renderCanvas_resume_def)
  show "publisher (react (PersonSegmented segmentation frame) s) = publisher s"
    and "published (react (PersonSegmented segmentation frame) s) = published s"
    and "outputCanvas (react (PersonSegmented segmentation frame) s) = outputCanvas s"
    and "workerTimeouts (react (PersonSegmented segmentation frame) s) = workerTimeouts s"
    unfolding r by simp_all
  fix es assume "StopCalled \<notin> set es"
  then show "run es (react (PersonSegmented segmentation frame) s) =
      react (PersonSegmented segmentation frame) s"
    unfolding r by (simp add: run_idle)
qed

theorem failed_check_ends_its_own_chain_witness:
  "initCanvasPublisher_devices [\<lparr>deviceId = ''default'', kind = ''audioinput''\<rparr>] (mounted created) =
     Inl (Error ''Could not get video device'', mounted created)
   \<and> run [UserMediaGranted [], PlayAndLoadedData (Some CanvasRenderingContext2D), TimeoutFired]
         (react (DevicesEnumerated [\<lparr>deviceId = ''default'', kind = ''audioinput''\<rparr>]) (mounted created)) =
       react (DevicesEnumerated [\<lparr>deviceId = ''default'', kind = ''audioinput''\<rparr>]) (mounted created)
   \<and> publisher (react (DevicesEnumerated [\<lparr>deviceId = ''default'', kind = ''audioinput''\<rparr>])
         (mounted created)) = None
   \<and> run [BodyPixLoaded (Some CanvasRenderingContext2D), PersonSegmented [0] [1, 2, 3, 4]]
         (react (PlayAndLoadedData None) (created\<lparr>pending := AwaitPlayAndLoadedData\<rparr>)) =
       react (PlayAndLoadedData None) (created\<lparr>pending := AwaitPlayAndLoadedData\<rparr>)
   \<and> publisher (react (PlayAndLoadedData None) (created\<lparr>pending := AwaitPlayAndLoadedData\<rparr>)) =
       Some PublisherActive
   \<and> processCanvas (react (BodyPixLoaded None) (created\<lparr>pending := AwaitBodyPixLoad\<rparr>)) = False
   \<and> run [PersonSegmented [0] [1, 2, 3, 4], TimeoutFired]
         (react (BodyPixLoaded None) (created\<lparr>pending := AwaitBodyPixLoad\<rparr>)) =
       react (BodyPixLoaded None) (created\<lparr>pending := AwaitBodyPixLoad\<rparr>)
   \<and> outputCanvas (react (PersonSegmented [0] [1, 2, 3, 4])
         (created\<lparr>backgroundImage := None, processCanvas := True, pending := AwaitSegmentPerson\<rparr>)) = []
   \<and> workerTimeouts (react (PersonSegmented [0] [1, 2, 3, 4])
         (created\<lparr>backgroundImage := None, processCanvas := True, pending := AwaitSegmentPerson\<rparr>)) = []
   \<and> run [TimeoutFired, PersonSegmented [0] [1, 2, 3, 4]]
         (react (PersonSegmented [0] [1, 2, 3, 4])
           (created\<lparr>backgroundImage := None, processCanvas := True, pending := AwaitSegmentPerson\<rparr>)) =
       react (PersonSegmented [0] [1, 2, 3, 4])
         (created\<lparr>backgroundImage := None, processCanvas := True, pending := AwaitSegmentPerson\<rparr>)"
proof -
  let ?devices = "[\<lparr>deviceId = ''default'', kind = ''audioinput''\<rparr>]"
  let ?seg = "[0] :: byte list"
  let ?frame = "[1, 2, 3, 4] :: byte list"
  let ?s1 = "mounted created"
  let ?s2 = "created\<lparr>pending := AwaitPlayAndLoadedData\<rparr>"
  let ?s3 = "created\<lparr>pending := AwaitBodyPixLoad\<rparr>"
  let ?s4 = "created\<lparr>backgroundImage := None, processCanvas := True, pending := AwaitSegmentPerson\<rparr>"
  let ?es1 = "[UserMediaGranted [], PlayAndLoadedData (Some CanvasRenderingContext2D), TimeoutFired]"
  let ?es2 = "[BodyPixLoaded (Some CanvasRenderingContext2D), PersonSegmented ?seg ?frame]"
  let ?es3 = "[PersonSegmented ?seg ?frame, TimeoutFired]"
  let ?es4 = "[TimeoutFired, PersonSegmented ?seg ?frame]"
  have nodev: "find (\<lambda>device. kind device = ''videoinput'') ?devices = None" by simp
  have p1: "pending ?s1 = AwaitEnumerateDevices" by (simp add: mounted_def)
  have p2: "pending ?s2 = AwaitPlayAndLoadedData" by simp
  have p3: "pending ?s3 = AwaitBodyPixLoad" by simp
  have p4: "pending ?s4 = AwaitSegmentPerson" and bg: "backgroundImage ?s4 = None" by simp_all
  note t1 = failed_check_ends_its_own_chain [where devices = ?devices and s = ?s1]
  note t2 = failed_check_ends_its_own_chain [where s = ?s2]
  note t3 = failed_check_ends_its_own_chain [where s = ?s3]
  note t4 = failed_check_ends_its_own_chain [where s = ?s4 and segmentation = ?seg and frame = ?frame]
  from t1 nodev have a: "initCanvasPublisher_devices ?devices ?s1 =
      Inl (Error ''Could not get video device'', ?s1)"
    by blast
  from t1 nodev p1 have r1: "react (DevicesEnumerated ?devices) ?s1 =
      ?s1\<lparr>pending := Idle, thrown := thrown ?s1 @ [Error ''Could not get video device'']\<rparr>"
    and "\<forall>es. StopCalled \<notin> set es \<longrightarrow>
      run es (react (DevicesEnumerated ?devices) ?s1) = react (DevicesEnumerated ?devices) ?s1"
    by blast+
  then have "StopCalled \<notin> set ?es1 \<longrightarrow>
      run ?es1 (react (DevicesEnumerated ?devices) ?s1) = react (DevicesEnumerated ?devices) ?s1"
    by blast
  then have b: "run ?es1 (react (DevicesEnumerated ?devices) ?s1) = react (DevicesEnumerated ?devices) ?s1"
    by simp
  have c: "publisher (react (DevicesEnumerated ?devices) ?s1) = None"
    unfolding r1 by (simp add: mounted_def created_def)
  from t2 p2 have "\<forall>es. StopCalled \<notin> set es \<longrightarrow>
      run es (react (PlayAndLoadedData None) ?s2) = react (PlayAndLoadedData None) ?s2"
    by blast
  then have "StopCalled \<notin> set ?es2 \<longrightarrow>
      run ?es2 (react (PlayAndLoadedData None) ?s2) = react (PlayAndLoadedData None) ?s2"
    by blast
  then have d: "run ?es2 (react (PlayAndLoadedData None) ?s2) = react (PlayAndLoadedData None) ?s2"
    by simp
  from t2 p2 have d': "publisher (react (PlayAndLoadedData None) ?s2) = Some PublisherActive"
    by blast
  from t3 p3 have r3: "react (BodyPixLoaded None) ?s3 =
      ?s3\<lparr>pending := Idle, thrown := thrown ?s3 @ [Error ''Unable to clone canvas context'']\<rparr>"
    and "\<forall>es. StopCalled \<notin> set es \<longrightarrow>
      run es (react (BodyPixLoaded None) ?s3) = react (BodyPixLoaded None) ?s3"
    by blast+
  then have "StopCalled \<notin> set ?es3 \<longrightarrow>
      run ?es3 (react (BodyPixLoaded None) ?s3) = react (BodyPixLoaded None) ?s3"
    by blast
  then have f: "run ?es3 (react (BodyPixLoaded None) ?s3) = react (BodyPixLoaded None) ?s3"
    by simp
  have e: "processCanvas (react (BodyPixLoaded None) ?s3) = False"
    unfolding r3 by (simp add: created_def)
  from t4 bg p4 have r4: "react (PersonSegmented ?seg ?frame) ?s4 =
      ?s4\<lparr>cloneCanvas := pixels (maskPass ?seg ?frame), pending := Idle,
        thrown := thrown ?s4 @ [Error ''Unable to get background image'']\<rparr>"
    and "\<forall>es. StopCalled \<notin> set es \<longrightarrow>
      run es (react (PersonSegmented ?seg ?frame) ?s4) = react (PersonSegmented ?seg ?frame) ?s4"
    by blast+
  then have "StopCalled \<notin> set ?es4 \<longrightarrow>
      run ?es4 (react (PersonSegmented ?seg ?frame) ?s4) = react (PersonSegmented ?seg ?frame) ?s4"
    by blast
  then have i: "run ?es4 (react (PersonSegmented ?seg ?frame) ?s4) = react (PersonSegmented ?seg ?frame) ?s4"
    by simp
  have g: "outputCanvas (react (PersonSegmented ?seg ?frame) ?s4) = []"
    and h: "workerTimeouts (react (PersonSegmented ?seg ?frame) ?s4) = []"
    unfolding r4 by (simp_all add: created_def)
  from a b c d d' e f g h i show ?thesis by blast
qed

subsection \<open>One iteration of the compositing loop\<close>

lemma cloneCanvas_renderCanvas_resume:
  "cloneCanvas (uncaught (renderCanvas_resume segmentation frame s)) =
     pixels (maskPass segmentation frame)"
  by (simp add: renderCanvas_resume_def Let_def split: option.split)

text \<open>
  C1. After the masking pass, the alpha byte (byte \<open>4 * p + 3\<close>) of every pixel \<open>p\<close> of
  the buffer whose entry in the classification array is \<open>0\<close> (background) is zero; and
  so it is in every iteration of the compositing loop, in the pixel data that the
  iteration puts back on the clone canvas, whether the iteration ends or throws.
\<close>

theorem background_alpha_zeroed:
  assumes "p < length segmentation" and "segmentation ! p = 0" and "4 * p + 3 < length frame"
  shows "pixels (maskPass segmentation frame) ! (4 * p + 3) = 0
     \<and> cloneCanvas (uncaught (renderCanvas_resume segmentation frame s)) ! (4 * p + 3) = 0"
proof -
  have "(4 * p + 3) div 4 = p" and "(4 * p + 3) mod 4 = 3" by presburger+
  moreover have "typedRead segmentation p = Some 0"
    using assms(1,2) by (simp add: typedRead_def)
  ultimately have "pixels (maskPass segmentation frame) ! (4 * p + 3) = 0"
    using pixels_maskLoop_nth [of 0 "4 * p + 3" "\<lparr>pixels = frame, visited = [], writes = []\<rparr>" segmentation]
      assms(3)
    by (simp add: maskPass_def)
  then show ?thesis by (simp add: cloneCanvas_renderCanvas_resume)
qed

theorem background_alpha_zeroed_witness:
  "(1::nat) < length [1, 0 :: byte] \<and> [1, 0 :: byte] ! 1 = 0
   \<and> 4 * 1 + 3 < length [10, 20, 30, 255, 40, 50, 60, 255 :: byte]
   \<and> pixels (maskPass [1, 0] [10, 20, 30, 255, 40, 50, 60, 255]) ! (4 * 1 + 3) = 0
   \<and> cloneCanvas (uncaught (renderCanvas_resume [1, 0] [10, 20, 30, 255, 40, 50, 60, 255] created))
         ! (4 * 1 + 3) = 0"
  using background_alpha_zeroed [of 1 "[1, 0]" "[10, 20, 30, 255, 40, 50, 60, 255]" created]
  by simp

lemma react_constants:
  "backgroundImage (react e s) = backgroundImage s \<and> quality (react e s) = quality s"
proof (cases e)
  case (PersonSegmented segmentation frame)
  then show ?thesis
    by (simp add: renderCanvas_resume_def Let_def split: option.split)
next
  case StopCalled
  then show ?thesis by (simp add: stop_def Let_def split: option.split)
qed (simp_all add: initCanvasPublisher_devices_def initCanvasPublisher_stream_def
  startCanvasRendering_begin_def startCanvasRendering_resume_def renderCanvas_begin_def
  mounted_resume_def split: option.split)

lemma run_constants:
  "backgroundImage (run es s) = backgroundImage s \<and> quality (run es s) = quality s"
  by (induction es arbitrary: s) (simp_all add: react_constants)

lemma renderCanvas_resume_draws:
  assumes "backgroundImage s = Some background"
  shows "\<exists>s'. renderCanvas_resume segmentation frame s = Inr s'
     \<and> cloneCanvas s' = pixels (maskPass segmentation frame)
     \<and> outputCanvas s' = outputCanvas s @
          [drawImage (ImageElement background) 0 0 (videoWidth s) (videoHeight s),
           drawImage (CanvasElement (pixels (maskPass segmentation frame))) 0 0
             (videoWidth s) (videoHeight s)]"
proof (cases "processCanvas s")
  case True
  with assms show ?thesis
    by (simp add: renderCanvas_resume_def videoWidth_def videoHeight_def)
next
  case False
  with assms show ?thesis
    by (simp add: renderCanvas_resume_def videoWidth_def videoHeight_def)
qed

text \<open>
  C5. An iteration that has its background image makes exactly two draws on the visible
  output canvas, in this order: the background image, then the clone canvas, which at
  that moment holds the video frame after the masking pass. Both cover the canvas from
  \<open>(0, 0)\<close> at the video size; the later draw is painted over the earlier one. A
  component that was created and mounted always has its background image, whatever
  happened to it since: each of its iterations draws the image of \<open>created()\<close>, then the
  masked frame, at 640 by 480.
\<close>

theorem background_drawn_then_masked_frame:
  "(backgroundImage s = Some background \<longrightarrow>
      (\<exists>s'. renderCanvas_resume segmentation frame s = Inr s'
         \<and> cloneCanvas s' = pixels (maskPass segmentation frame)
         \<and> outputCanvas s' = outputCanvas s @
              [drawImage (ImageElement background) 0 0 (videoWidth s) (videoHeight s),
               drawImage (CanvasElement (pixels (maskPass segmentation frame))) 0 0
                 (videoWidth s) (videoHeight s)]))
   \<and> (pending (run es (mounted created)) = AwaitSegmentPerson \<longrightarrow>
        outputCanvas (react (PersonSegmented segmentation frame) (run es (mounted created))) =
          outputCanvas (run es (mounted created)) @
            [drawImage (ImageElement \<lparr>src = ''~/assets/icons/mars_background.jpg''\<rparr>) 0 0 640 480,
             drawImage (CanvasElement (pixels (maskPass segmentation frame))) 0 0 640 480])"
proof (intro conjI impI)
  assume "backgroundImage s = Some background"
  then show "\<exists>s'. renderCanvas_resume segmentation frame s = Inr s'
         \<and> cloneCanvas s' = pixels (maskPass segmentation frame)
         \<and> outputCanvas s' = outputCanvas s @
              [drawImage (ImageElement background) 0 0 (videoWidth s) (videoHeight s),
               drawImage (CanvasElement (pixels (maskPass segmentation frame))) 0 0
                 (videoWidth s) (videoHeight s)]"
    by (rule renderCanvas_resume_draws)
next
  let ?s = "run es (mounted created)"
  let ?idle = "?s\<lparr>pending := Idle\<rparr>"
  assume p: "pending ?s = AwaitSegmentPerson"
  have "backgroundImage ?s = backgroundImage (mounted created)"
    and "quality ?s = quality (mounted created)"
    using run_constants [of es "mounted created"] by simp_all
  then have bg: "backgroundImage ?idle = Some \<lparr>src = ''~/assets/icons/mars_background.jpg''\<rparr>"
    and sz: "videoWidth ?idle = 640" "videoHeight ?idle = 480"
    by (simp_all add: mounted_def created_def videoWidth_def videoHeight_def)
  from renderCanvas_resume_draws [OF bg, of segmentation frame] obtain s' where
    "renderCanvas_resume segmentation frame ?idle = Inr s'"
    and "outputCanvas s' = outputCanvas ?idle @
          [drawImage (ImageElement \<lparr>src = ''~/assets/icons/mars_background.jpg''\<rparr>) 0 0
             (videoWidth ?idle) (videoHeight ?idle),
           drawImage (CanvasElement (pixels (maskPass segmentation frame))) 0 0
             (videoWidth ?idle) (videoHeight ?idle)]"
    by blast
  with p sz show "outputCanvas (react (PersonSegmented segmentation frame) ?s) =
      outputCanvas ?s @
        [drawImage (ImageElement \<lparr>src = ''~/assets/icons/mars_background.jpg''\<rparr>) 0 0 640 480,
         drawImage (CanvasElement (pixels (maskPass segmentation frame))) 0 0 640 480]"
    by simp
qed

theorem background_drawn_then_masked_frame_witness:
  "(\<exists>s'. renderCanvas_resume [1, 0] [10, 20, 30, 255, 40, 50, 60, 255] created = Inr s'
     \<and> cloneCanvas s' = pixels (maskPass [1, 0] [10, 20, 30, 255, 40, 50, 60, 255])
     \<and> outputCanvas s' =
          [drawImage (ImageElement \<lparr>src = ''~/assets/icons/mars_background.jpg''\<rparr>) 0 0 640 480,
           drawImage (CanvasElement (pixels (maskPass [1, 0] [10, 20, 30, 255, 40, 50, 60, 255])))
             0 0 640 480])
   \<and> outputCanvas (react (PersonSegmented [1, 0] [10, 20, 30, 255, 40, 50, 60, 255])
        (run [DevicesEnumerated [\<lparr>deviceId = ''cam'', kind = ''videoinput''\<rparr>],
              UserMediaGranted [\<lparr>label = ''camera'', readyState = Live\<rparr>],
              PlayAndLoadedData (Some CanvasRenderingContext2D),
              BodyPixLoaded (Some CanvasRenderingContext2D)] (mounted created))) =
       [drawImage (ImageElement \<lparr>src = ''~/assets/icons/mars_background.jpg''\<rparr>) 0 0 640 480,
        drawImage (CanvasElement (pixels (maskPass [1, 0] [10, 20, 30, 255, 40, 50, 60, 255])))
          0 0 640 480]"
proof -
  let ?seg = "[1, 0] :: byte list"
  let ?frame = "[10, 20, 30, 255, 40, 50, 60, 255] :: byte list"
  let ?es = "[DevicesEnumerated [\<lparr>deviceId = ''cam'', kind = ''videoinput''\<rparr>],
      UserMediaGranted [\<lparr>label = ''camera'', readyState = Live\<rparr>],
      PlayAndLoadedData (Some CanvasRenderingContext2D),
      BodyPixLoaded (Some CanvasRenderingContext2D)]"
  note t = background_drawn_then_masked_frame
    [where s = created and background = "\<lparr>src = ''~/assets/icons/mars_background.jpg''\<rparr>"
       and segmentation = ?seg and frame = ?frame and es = ?es]
  have bg: "backgroundImage created = Some \<lparr>src = ''~/assets/icons/mars_background.jpg''\<rparr>"
    by (simp add: created_def)
  have sz: "videoWidth created = 640" "videoHeight created = 480" "outputCanvas created = []"
    by (simp_all add: created_def videoWidth_def videoHeight_def)
  have p: "pending (run ?es (mounted created)) = AwaitSegmentPerson"
    and none: "outputCanvas (run ?es (mounted created)) = []"
    by (simp_all add: mounted_def created_def initCanvasPublisher_devices_def
        initCanvasPublisher_stream_def startCanvasRendering_begin_def mounted_resume_def
        startCanvasRendering_resume_def renderCanvas_begin_def)
  from t bg have a: "\<exists>s'. renderCanvas_resume ?seg ?frame created = Inr s'
         \<and> cloneCanvas s' = pixels (maskPass ?seg ?frame)
         \<and> outputCanvas s' = outputCanvas created @
              [drawImage (ImageElement \<lparr>src = ''~/assets/icons/mars_background.jpg''\<rparr>) 0 0
                 (videoWidth created) (videoHeight created),
               drawImage (CanvasElement (pixels (maskPass ?seg ?frame))) 0 0
                 (videoWidth created) (videoHeight created)]"
    by blast
  from t p have b: "outputCanvas (react (PersonSegmented ?seg ?frame) (run ?es (mounted created))) =
      outputCanvas (run ?es (mounted created)) @
        [drawImage (ImageElement \<lparr>src = ''~/assets/icons/mars_background.jpg''\<rparr>) 0 0 640 480,
         drawImage (CanvasElement (pixels (maskPass ?seg ?frame))) 0 0 640 480]"
    by blast
  note a' = a [unfolded sz append_Nil]
  note b' = b [unfolded none append_Nil]
  from a' b' show ?thesis by (intro conjI)
qed

subsection \<open>Stopping the loop\<close>

text \<open>Every delay passed to \<open>workerTimers.setTimeout\<close> is 30.\<close>

lemma react_delays:
  assumes "list_all (\<lambda>d. d = 30) (workerTimeouts s)"
  shows "list_all (\<lambda>d. d = 30) (workerTimeouts (react e s))"
proof (cases e)
  case (PersonSegmented segmentation frame)
  with assms show ?thesis
    by (simp add: renderCanvas_resume_def Let_def split: option.split)
next
  case StopCalled
  with assms show ?thesis by (simp add: stop_def Let_def split: option.split)
qed (use assms in \<open>simp_all add: initCanvasPublisher_devices_def initCanvasPublisher_stream_def
  startCanvasRendering_begin_def startCanvasRendering_resume_def renderCanvas_begin_def
  mounted_resume_def split: option.split\<close>)

lemma run_delays:
  assumes "list_all (\<lambda>d. d = 30) (workerTimeouts s)"
  shows "list_all (\<lambda>d. d = 30) (workerTimeouts (run es s))"
  using assms by (induction es arbitrary: s) (simp_all add: react_delays)

lemma react_loopHalted:
  assumes "loopHalted n ts s"
  shows "loopHalted n ts (react e s)"
proof (cases e)
  case (PersonSegmented segmentation frame)
  with assms show ?thesis
    by (auto simp add: loopHalted_def renderCanvas_resume_def Let_def split: option.split if_splits)
next
  case TimeoutFired
  with assms show ?thesis
    by (auto simp add: loopHalted_def renderCanvas_begin_def split: if_splits)
next
  case StopCalled
  with assms show ?thesis
    by (auto simp add: loopHalted_def stop_def Let_def split: option.split if_splits)
qed (use assms in \<open>auto simp add: loopHalted_def split: if_splits\<close>)

lemma run_loopHalted:
  assumes "loopHalted n ts s"
  shows "loopHalted n ts (run es s)"
  using assms by (induction es arbitrary: s) (simp_all add: react_loopHalted)

lemma stop_loopHalted:
  assumes "pending s = Idle \<or> pending s = AwaitSegmentPerson \<or> pending s = AwaitTimeout"
  shows "loopHalted (length (outputCanvas s)) (workerTimeouts s) (react StopCalled s)"
  using assms by (auto simp add: loopHalted_def stop_def Let_def split: option.split)

text \<open>
  When \<open>stop()\<close> is called on a component that is past \<open>startCanvasRendering\<close> (it awaits
  the segmentation, or the timer, or nothing), the loop never reschedules itself again,
  whatever happens afterwards: no delay is added to those passed to the timer, the flag
  stays down, and at most one more iteration (two draws) reaches the output canvas.
\<close>

lemma stop_halts_started_loop:
  assumes "pending s = Idle \<or> pending s = AwaitSegmentPerson \<or> pending s = AwaitTimeout"
  shows "workerTimeouts (run es (react StopCalled s)) = workerTimeouts s
     \<and> processCanvas (run es (react StopCalled s)) = False
     \<and> length (outputCanvas (run es (react StopCalled s))) \<le> length (outputCanvas s) + 2"
proof -
  have "loopHalted (length (outputCanvas s)) (workerTimeouts s) (run es (react StopCalled s))"
    using assms by (intro run_loopHalted stop_loopHalted)
  then show ?thesis by (auto simp add: loopHalted_def split: if_splits)
qed

lemma reschedule_delay_is_30:
  "list_all (\<lambda>d. d = 30) (workerTimeouts (run es (mounted created)))"
  by (rule run_delays) (simp add: mounted_def created_def)

text \<open>
  C2. \<open>stop()\<close> called while \<open>startCanvasRendering\<close> still awaits \<open>bodyPix.load\<close>: the camera
  is there, the video plays, the publisher is made, and Stop is clicked before the
  model has loaded. \<open>stop()\<close> sets \<open>processCanvas\<close> to \<open>false\<close> and no timer has been set.
  When the model arrives, \<open>startCanvasRendering\<close> sets the flag to \<open>true\<close> (line 127) and
  starts the loop, which from then on reschedules itself after every iteration, with a
  delay of 30: after two iterations two timers have been set, the flag is up and the
  third iteration is scheduled.
\<close>

theorem stop_during_model_load_loop_reschedules:
  "processCanvas
     (run [DevicesEnumerated [\<lparr>deviceId = ''cam'', kind = ''videoinput''\<rparr>],
           UserMediaGranted [\<lparr>label = ''camera'', readyState = Live\<rparr>],
           PlayAndLoadedData (Some CanvasRenderingContext2D),
           StopCalled]
        (mounted created)) = False
   \<and> workerTimeouts
     (run [DevicesEnumerated [\<lparr>deviceId = ''cam'', kind = ''videoinput''\<rparr>],
           UserMediaGranted [\<lparr>label = ''camera'', readyState = Live\<rparr>],
           PlayAndLoadedData (Some CanvasRenderingContext2D),
           StopCalled]
        (mounted created)) = []
   \<and> workerTimeouts
     (run [DevicesEnumerated [\<lparr>deviceId = ''cam'', kind = ''videoinput''\<rparr>],
           UserMediaGranted [\<lparr>label = ''camera'', readyState = Live\<rparr>],
           PlayAndLoadedData (Some CanvasRenderingContext2D),
           StopCalled,
           BodyPixLoaded (Some CanvasRenderingContext2D),
           PersonSegmented [0] [10, 20, 30, 255],
           TimeoutFired,
           PersonSegmented [0] [10, 20, 30, 255]]
        (mounted created)) = [30, 30]
   \<and> processCanvas
     (run [DevicesEnumerated [\<lparr>deviceId = ''cam'', kind = ''videoinput''\<rparr>],
           UserMediaGranted [\<lparr>label = ''camera'', readyState = Live\<rparr>],
           PlayAndLoadedData (Some CanvasRenderingContext2D),
           StopCalled,
           BodyPixLoaded (Some CanvasRenderingContext2D),
           PersonSegmented [0] [10, 20, 30, 255],
           TimeoutFired,
           PersonSegmented [0] [10, 20, 30, 255]]
        (mounted created)) = True
   \<and> pending
     (run [DevicesEnumerated [\<lparr>deviceId = ''cam'', kind = ''videoinput''\<rparr>],
           UserMediaGranted [\<lparr>label = ''camera'', readyState = Live\<rparr>],
           PlayAndLoadedData (Some CanvasRenderingContext2D),
           StopCalled,
           BodyPixLoaded (Some CanvasRenderingContext2D),
           PersonSegmented [0] [10, 20, 30, 255],
           TimeoutFired,
           PersonSegmented [0] [10, 20, 30, 255]]
        (mounted created)) = AwaitTimeout"
  by (simp add: mounted_def created_def initCanvasPublisher_devices_def
      initCanvasPublisher_stream_def startCanvasRendering_begin_def mounted_resume_def
      stop_def destroy_def trackStop_def startCanvasRendering_resume_def
      renderCanvas_begin_def renderCanvas_resume_def Let_def)

section \<open>Properties of the recorder page\<close>

subsection \<open>Releasing the camera\<close>

lemma trackStop_ended:
  "list_all (\<lambda>track. readyState track = Ended) (map trackStop stream)"
  by (induction stream) (simp_all add: trackStop_def)

lemma trackStop_same_tracks:
  "map label (map trackStop stream) = map label stream"
  by (induction stream) (simp_all add: trackStop_def)

text \<open>
  C7. \<open>stop()\<close> of the publisher stops every track of the stream of the local video
  element: the stream keeps its tracks and each of them is ended. \<open>stopMediaStream\<close> of
  the recorder page does the same to its stream and sets the status to \<open>stopped\<close>; when
  there is no stream it throws \<open>Could not get local stream to stop\<close> and changes nothing.
\<close>

theorem stop_stops_every_track:
  "(srcObject c = Some stream \<longrightarrow>
      (\<exists>c'. stop c = Inr c' \<and> srcObject c' = Some (map trackStop stream)))
   \<and> (vr_srcObject r = Some stream \<longrightarrow>
      (\<exists>r'. stopMediaStream r = Inr r' \<and> vr_srcObject r' = Some (map trackStop stream)
          \<and> mediaStreamStatus r' = Status_stopped))
   \<and> list_all (\<lambda>track. readyState track = Ended) (map trackStop stream)
   \<and> map label (map trackStop stream) = map label stream
   \<and> (vr_srcObject r = None \<longrightarrow>
      stopMediaStream r = Inl (Error ''Could not get local stream to stop'', r))"
proof (intro conjI impI)
  assume "srcObject c = Some stream"
  then show "\<exists>c'. stop c = Inr c' \<and> srcObject c' = Some (map trackStop stream)"
    by (simp add: stop_def Let_def)
next
  assume "vr_srcObject r = Some stream"
  then show "\<exists>r'. stopMediaStream r = Inr r' \<and> vr_srcObject r' = Some (map trackStop stream)
      \<and> mediaStreamStatus r' = Status_stopped"
    by (simp add: stopMediaStream_def)
next
  show "list_all (\<lambda>track. readyState track = Ended) (map trackStop stream)"
    by (rule trackStop_ended)
next
  show "map label (map trackStop stream) = map label stream"
    by (rule trackStop_same_tracks)
next
  assume "vr_srcObject r = None"
  then show "stopMediaStream r = Inl (Error ''Could not get local stream to stop'', r)"
    by (simp add: stopMediaStream_def)
qed

theorem stop_stops_every_track_witness:
  "(\<exists>c'. stop (created\<lparr>srcObject :=
        Some [\<lparr>label = ''camera'', readyState = Live\<rparr>, \<lparr>label = ''depth'', readyState = Live\<rparr>]\<rparr>) = Inr c'
      \<and> srcObject c' =
        Some [\<lparr>label = ''camera'', readyState = Ended\<rparr>, \<lparr>label = ''depth'', readyState = Ended\<rparr>])
   \<and> (\<exists>r'. stopMediaStream (vr_created\<lparr>vr_srcObject :=
        Some [\<lparr>label = ''camera'', readyState = Live\<rparr>, \<lparr>label = ''depth'', readyState = Live\<rparr>]\<rparr>) = Inr r'
      \<and> vr_srcObject r' =
        Some [\<lparr>label = ''camera'', readyState = Ended\<rparr>, \<lparr>label = ''depth'', readyState = Ended\<rparr>]
      \<and> mediaStreamStatus r' = Status_stopped)
   \<and> stopMediaStream vr_created = Inl (Error ''Could not get local stream to stop'', vr_created)"
proof -
  let ?stream = "[\<lparr>label = ''camera'', readyState = Live\<rparr>, \<lparr>label = ''depth'', readyState = Live\<rparr>]"
  let ?c = "created\<lparr>srcObject := Some ?stream\<rparr>"
  let ?r = "vr_created\<lparr>vr_srcObject := Some ?stream\<rparr>"
  have ended: "map trackStop ?stream =
      [\<lparr>label = ''camera'', readyState = Ended\<rparr>, \<lparr>label = ''depth'', readyState = Ended\<rparr>]"
    by (simp add: trackStop_def)
  have hc: "srcObject ?c = Some ?stream" and hr: "vr_srcObject ?r = Some ?stream"
    and hn: "vr_srcObject vr_created = None"
    by (simp_all add: vr_created_def)
  from stop_stops_every_track [of ?c ?stream ?r] hc hr
  have a: "\<exists>c'. stop ?c = Inr c' \<and> srcObject c' = Some (map trackStop ?stream)"
    and b: "\<exists>r'. stopMediaStream ?r = Inr r' \<and> vr_srcObject r' = Some (map trackStop ?stream)
      \<and> mediaStreamStatus r' = Status_stopped"
    by blast+
  from stop_stops_every_track [of c "[]" vr_created] hn
  have n: "stopMediaStream vr_created = Inl (Error ''Could not get local stream to stop'', vr_created)"
    by blast
  from a b n show ?thesis unfolding ended by blast
qed

subsection \<open>The drawing loop of the recorder page\<close>

text \<open>
  C9, as the claim states it: \<open>renderCanvas\<close> reschedules itself on every invocation. It
  does not when the canvas has no 2D context: it throws first. A page with one timer
  pending, whose timer fires while the context is missing, has set no new timer and has
  none pending: the loop has ended.
\<close>

theorem recorder_loop_ends_without_context:
  "vr_renderCanvas None vr_created = Inl (Error ''Could not get output canvas context'', vr_created)
   \<and> renderTimers (vr_react (RenderTimeout None)
         (vr_created\<lparr>vr_workerTimeouts := [1000 / 30], renderTimers := 1\<rparr>)) = 0
   \<and> vr_workerTimeouts (vr_react (RenderTimeout None)
         (vr_created\<lparr>vr_workerTimeouts := [1000 / 30], renderTimers := 1\<rparr>)) = [1000 / 30]
   \<and> vr_run [RenderTimeout (Some CanvasRenderingContext2D), RenderTimeout (Some CanvasRenderingContext2D)]
         (vr_react (RenderTimeout None)
           (vr_created\<lparr>vr_workerTimeouts := [1000 / 30], renderTimers := 1\<rparr>)) =
       vr_react (RenderTimeout None)
         (vr_created\<lparr>vr_workerTimeouts := [1000 / 30], renderTimers := 1\<rparr>)"
  by (simp add: vr_renderCanvas_def vr_created_def)

lemma renderTimers_vr_renderCanvas:
  "renderTimers s \<le> renderTimers (vr_uncaught (vr_renderCanvas canvasContext s))"
  by (cases canvasContext) (simp_all add: vr_renderCanvas_def)

lemma renderTimers_listeners:
  "renderTimers s \<le> renderTimers (((\<lambda>s'. vr_uncaught (vr_renderCanvas canvasContext s')) ^^ n) s)"
proof (induction n)
  case 0
  show ?case by simp
next
  case (Suc n)
  let ?s = "((\<lambda>s'. vr_uncaught (vr_renderCanvas canvasContext s')) ^^ n) s"
  have "renderTimers ?s \<le> renderTimers (vr_uncaught (vr_renderCanvas canvasContext ?s))"
    by (rule renderTimers_vr_renderCanvas)
  with Suc show ?case by simp
qed

lemma renderTimers_awaitAll:
  "renderTimers (vr_uncaught (awaitAll k s)) = renderTimers s"
  by (simp add: awaitAll_def startRecording_resume_def Let_def split: promise.split)

lemma renderTimers_onRecording:
  "renderTimers (onRecording k handler s) = renderTimers s"
  by (simp add: onRecording_def renderTimers_awaitAll)

lemma renderTimers_vr_react:
  assumes "e \<noteq> RenderTimeout None"
  shows "renderTimers s \<le> renderTimers (vr_react e s)"
proof (cases e)
  case (DevicesListed devices)
  then show ?thesis
    by (simp add: initMediaStream_devices_def split: option.split)
next
  case (StreamGranted stream)
  then show ?thesis by (simp add: initMediaStream_stream_def)
next
  case (VideoPlay canvasContext)
  then show ?thesis by (simp add: renderTimers_listeners)
next
  case (RenderTimeout canvasContext)
  with assms obtain ctx where "canvasContext = Some ctx" by (cases canvasContext) auto
  with RenderTimeout show ?thesis by (simp add: vr_renderCanvas_def)
next
  case ToggleClicked
  then show ?thesis
    by (simp add: toggleMediaStream_def initMediaStream_def stopMediaStream_def
        split: status.split option.split)
next
  case RecordClicked
  then show ?thesis by (simp add: startRecording_def)
qed (simp_all add: renderTimers_onRecording)

lemma recorder_loop_runs_on:
  assumes "0 < renderTimers s"
  shows "renderTimers (vr_run (replicate n (RenderTimeout (Some ctx))) s) = renderTimers s
     \<and> vr_workerTimeouts (vr_run (replicate n (RenderTimeout (Some ctx))) s) =
         vr_workerTimeouts s @ replicate n (1000 / 30)"
  using assms
proof (induction n arbitrary: s)
  case 0
  show ?case by simp
next
  case (Suc n)
  let ?s = "vr_react (RenderTimeout (Some ctx)) s"
  have step: "renderTimers ?s = renderTimers s"
    "vr_workerTimeouts ?s = vr_workerTimeouts s @ [1000 / 30]"
    using Suc.prems by (simp_all add: vr_renderCanvas_def)
  then have "0 < renderTimers ?s" using Suc.prems by simp
  from Suc.IH [OF this] step show ?case
    by (simp add: replicate_app_Cons_same)
qed

text \<open>
  C9, amended. An invocation of \<open>renderCanvas\<close> that gets the 2D context of the canvas sets
  a worker timer of \<open>1000 / 30\<close> ms, whatever the state of the page: no flag is read. No
  event but a timer firing without a context lowers the number of timers pending. So
  after \<open>stopMediaStream\<close>, whether it stopped the tracks or threw, a loop that runs keeps
  rescheduling: each timer that fires sets the next one.
\<close>

theorem recorder_loop_reschedules_with_context:
  "(\<exists>s'. vr_renderCanvas (Some ctx) s = Inr s'
       \<and> vr_workerTimeouts s' = vr_workerTimeouts s @ [1000 / 30]
       \<and> renderTimers s' = renderTimers s + 1)
   \<and> (e \<noteq> RenderTimeout None \<longrightarrow> renderTimers s \<le> renderTimers (vr_react e s))
   \<and> (0 < renderTimers s \<longrightarrow>
        renderTimers (vr_run (replicate n (RenderTimeout (Some ctx)))
            (vr_uncaught (stopMediaStream s))) = renderTimers s
        \<and> vr_workerTimeouts (vr_run (replicate n (RenderTimeout (Some ctx)))
            (vr_uncaught (stopMediaStream s))) = vr_workerTimeouts s @ replicate n (1000 / 30))"
proof (intro conjI impI)
  show "\<exists>s'. vr_renderCanvas (Some ctx) s = Inr s'
       \<and> vr_workerTimeouts s' = vr_workerTimeouts s @ [1000 / 30]
       \<and> renderTimers s' = renderTimers s + 1"
    by (simp add: vr_renderCanvas_def)
next
  assume "e \<noteq> RenderTimeout None"
  then show "renderTimers s \<le> renderTimers (vr_react e s)"
    by (rule renderTimers_vr_react)
next
  let ?s = "vr_uncaught (stopMediaStream s)"
  assume pos: "0 < renderTimers s"
  have same: "renderTimers ?s = renderTimers s" "vr_workerTimeouts ?s = vr_workerTimeouts s"
    by (simp_all add: stopMediaStream_def split: option.split)
  with pos have "0 < renderTimers ?s" by simp
  from recorder_loop_runs_on [OF this, of n ctx] same
  show "renderTimers (vr_run (replicate n (RenderTimeout (Some ctx))) ?s) = renderTimers s"
    and "vr_workerTimeouts (vr_run (replicate n (RenderTimeout (Some ctx))) ?s) =
      vr_workerTimeouts s @ replicate n (1000 / 30)"
    by simp_all
qed

theorem recorder_loop_reschedules_with_context_witness:
  "(\<exists>s'. vr_renderCanvas (Some CanvasRenderingContext2D)
          (vr_created\<lparr>mediaStreamStatus := Status_started,
             vr_srcObject := Some [\<lparr>label = ''camera'', readyState = Live\<rparr>],
             renderTimers := 1\<rparr>) = Inr s'
       \<and> vr_workerTimeouts s' = [1000 / 30] \<and> renderTimers s' = 2)
   \<and> renderTimers (vr_react ToggleClicked
         (vr_created\<lparr>mediaStreamStatus := Status_started,
            vr_srcObject := Some [\<lparr>label = ''camera'', readyState = Live\<rparr>],
            renderTimers := 1\<rparr>)) \<ge> 1
   \<and> renderTimers
        (vr_run [RenderTimeout (Some CanvasRenderingContext2D), RenderTimeout (Some CanvasRenderingContext2D)]
          (vr_uncaught (stopMediaStream
            (vr_created\<lparr>mediaStreamStatus := Status_started,
               vr_srcObject := Some [\<lparr>label = ''camera'', readyState = Live\<rparr>],
               renderTimers := 1\<rparr>)))) = 1
   \<and> vr_workerTimeouts
        (vr_run [RenderTimeout (Some CanvasRenderingContext2D), RenderTimeout (Some CanvasRenderingContext2D)]
          (vr_uncaught (stopMediaStream
            (vr_created\<lparr>mediaStreamStatus := Status_started,
               vr_srcObject := Some [\<lparr>label = ''camera'', readyState = Live\<rparr>],
               renderTimers := 1\<rparr>)))) = [1000 / 30, 1000 / 30]"
proof -
  let ?s = "vr_created\<lparr>mediaStreamStatus := Status_started,
      vr_srcObject := Some [\<lparr>label = ''camera'', readyState = Live\<rparr>], renderTimers := 1\<rparr>"
  let ?tick = "RenderTimeout (Some CanvasRenderingContext2D)"
  note t = recorder_loop_reschedules_with_context
    [where s = ?s and e = ToggleClicked and n = 2 and ctx = CanvasRenderingContext2D]
  have ne: "ToggleClicked \<noteq> RenderTimeout None" by simp
  have pos: "0 < renderTimers ?s" and one: "renderTimers ?s = 1"
    and none: "vr_workerTimeouts ?s = []"
    by (simp_all add: vr_created_def)
  have two: "replicate 2 ?tick = [?tick, ?tick]" "replicate 2 (1000 / 30 :: rat) = [1000 / 30, 1000 / 30]"
    by (simp_all add: numeral_2_eq_2)
  from t have a: "\<exists>s'. vr_renderCanvas (Some CanvasRenderingContext2D) ?s = Inr s'
       \<and> vr_workerTimeouts s' = vr_workerTimeouts ?s @ [1000 / 30]
       \<and> renderTimers s' = renderTimers ?s + 1"
    by (rule conjunct1)
  from t ne have b: "renderTimers ?s \<le> renderTimers (vr_react ToggleClicked ?s)" by blast
  from t pos have c: "renderTimers (vr_run (replicate 2 ?tick) (vr_uncaught (stopMediaStream ?s))) =
      renderTimers ?s"
    and d: "vr_workerTimeouts (vr_run (replicate 2 ?tick) (vr_uncaught (stopMediaStream ?s))) =
      vr_workerTimeouts ?s @ replicate 2 (1000 / 30)"
    by blast+
  note a' = a [unfolded one none append_Nil one_add_one]
  note b' = b [unfolded one]
  note c' = c [unfolded one two]
  note d' = d [unfolded none two append_Nil]
  from a' b' c' d' show ?thesis by (intro conjI)
qed

subsection \<open>What an event does to the recordings\<close>

lemma awaited_same: "r\<lparr>awaited := awaited r\<rparr> = (r::recording)"
  by simp












subsection \<open>A recording, from the click to the download link\<close>



section \<open>Properties of the index page\<close>

subsection \<open>A connection that fails\<close>

lemma session_ix_react:
  assumes "\<not> connectSucceeded e"
  shows "session (ix_react e s) = session s"
proof (cases e)
  case (StartClicked envApiKey envSessionId envToken)
  then show ?thesis
    by (simp add: start_def split: option.split)
next
  case (ConnectAnswered sess err)
  with assms obtain msg where "err = Some msg" by (cases err) auto
  with ConnectAnswered show ?thesis by (simp add: connectCallback_def)
qed

lemma session_ix_run:
  assumes "list_all (\<lambda>e. \<not> connectSucceeded e) es"
  shows "session (ix_run es s) = session s"
  using assms by (induction es arbitrary: s) (simp_all add: session_ix_react)

text \<open>
  C8. When the connection fails, the callback alerts \<open>Could not connect session: \<close> and
  the error, and does nothing else: the state of the page is what it was but for the
  alert; nothing is thrown, \<open>connect\<close> is not called again, and \<open>session\<close> is not
  assigned. A session that was \<open>null\<close> stays \<open>null\<close>, so the canvas publisher component
  is not shown, and stays so as long as no connection succeeds.
\<close>

theorem connect_failure_alerts_only:
  "ix_react (ConnectAnswered sess (Some err)) s =
     s\<lparr>alerts := alerts s @ [''Could not connect session: '' @ err]\<rparr>
   \<and> ix_thrown (ix_react (ConnectAnswered sess (Some err)) s) = ix_thrown s
   \<and> connectCalls (ix_react (ConnectAnswered sess (Some err)) s) = connectCalls s
   \<and> session (ix_react (ConnectAnswered sess (Some err)) s) = session s
   \<and> (session s = None \<longrightarrow>
         session (ix_react (ConnectAnswered sess (Some err)) s) = None
         \<and> \<not> canvasPublisherShown (ix_react (ConnectAnswered sess (Some err)) s))
   \<and> (session s = None \<and> list_all (\<lambda>e. \<not> connectSucceeded e) es \<longrightarrow>
         session (ix_run es s) = None \<and> \<not> canvasPublisherShown (ix_run es s))"
proof (intro conjI impI)
  assume "session s = None \<and> list_all (\<lambda>e. \<not> connectSucceeded e) es"
  then have "session (ix_run es s) = None"
    using session_ix_run [of es s] by simp
  then show "session (ix_run es s) = None" and "\<not> canvasPublisherShown (ix_run es s)"
    by (simp_all add: canvasPublisherShown_def)
qed (simp_all add: connectCallback_def canvasPublisherShown_def)

theorem connect_failure_alerts_only_witness:
  "session ix_created = None
   \<and> alerts (ix_react (ConnectAnswered \<lparr>apiKey = ''key'', sessionId = ''sid''\<rparr> (Some ''OT_AUTHENTICATION_ERROR''))
         ix_created) = [''Could not connect session: OT_AUTHENTICATION_ERROR'']
   \<and> session (ix_react (ConnectAnswered \<lparr>apiKey = ''key'', sessionId = ''sid''\<rparr> (Some ''OT_AUTHENTICATION_ERROR''))
         ix_created) = None
   \<and> \<not> canvasPublisherShown
         (ix_react (ConnectAnswered \<lparr>apiKey = ''key'', sessionId = ''sid''\<rparr> (Some ''OT_AUTHENTICATION_ERROR''))
           ix_created)
   \<and> session (ix_run [StartClicked (Some ''key'') (Some ''sid'') (Some ''token''),
         ConnectAnswered \<lparr>apiKey = ''key'', sessionId = ''sid''\<rparr> (Some ''OT_AUTHENTICATION_ERROR''),
         StartClicked (Some ''key'') (Some ''sid'') None] ix_created) = None
   \<and> \<not> canvasPublisherShown (ix_run [StartClicked (Some ''key'') (Some ''sid'') (Some ''token''),
         ConnectAnswered \<lparr>apiKey = ''key'', sessionId = ''sid''\<rparr> (Some ''OT_AUTHENTICATION_ERROR''),
         StartClicked (Some ''key'') (Some ''sid'') None] ix_created)"
proof -
  let ?sess = "\<lparr>apiKey = ''key'', sessionId = ''sid''\<rparr>"
  let ?fail = "ConnectAnswered ?sess (Some ''OT_AUTHENTICATION_ERROR'')"
  let ?es = "[StartClicked (Some ''key'') (Some ''sid'') (Some ''token''), ?fail,
      StartClicked (Some ''key'') (Some ''sid'') None]"
  note t = connect_failure_alerts_only
    [where s = ix_created and sess = ?sess and err = "''OT_AUTHENTICATION_ERROR''" and es = ?es]
  have null: "session ix_created = None" and quiet: "alerts ix_created = []"
    by (simp_all add: ix_created_def)
  have fails: "list_all (\<lambda>e. \<not> connectSucceeded e) ?es" by simp
  from t have "ix_react ?fail ix_created =
      ix_created\<lparr>alerts := alerts ix_created @ [''Could not connect session: '' @ ''OT_AUTHENTICATION_ERROR'']\<rparr>"
    by (rule conjunct1)
  then have a: "alerts (ix_react ?fail ix_created) = [''Could not connect session: OT_AUTHENTICATION_ERROR'']"
    unfolding quiet by simp
  from t null have b: "session (ix_react ?fail ix_created) = None"
    and c: "\<not> canvasPublisherShown (ix_react ?fail ix_created)"
    by blast+
  from t null fails have d: "session (ix_run ?es ix_created) = None"
    and e: "\<not> canvasPublisherShown (ix_run ?es ix_created)"
    by blast+
  from null a b c d e show ?thesis by (intro conjI)
qed

end
